theory Spec2Isabelle
  imports Main
begin

section \<open>Values, exceptions and the world of \<open>json_to_csv\<close>\<close>

text \<open>
  The program under study is \<^verbatim>\<open>json_to_csv\<close> of \<^verbatim>\<open>solution.py\<close>: it checks that the
  input path exists, reads it with \<^verbatim>\<open>json.load\<close>, builds a pandas \<^verbatim>\<open>DataFrame\<close> from the
  parsed root (\<^verbatim>\<open>DataFrame.from_dict(data, orient='index')\<close> for a dict,
  \<^verbatim>\<open>DataFrame(data)\<close> for a list), writes it with \<^verbatim>\<open>df.to_csv(path, index=True)\<close> and
  returns a boolean.  Every exception is caught inside the function.  The script
  \<^verbatim>\<open>main.py\<close> runs the same steps inline, on fixed paths.

  A parsed JSON document is the Python value \<^verbatim>\<open>json.load\<close> returns: \<^verbatim>\<open>None\<close>, a \<^verbatim>\<open>bool\<close>,
  an unbounded \<^verbatim>\<open>int\<close>, a \<^verbatim>\<open>float\<close>, a \<^verbatim>\<open>str\<close>, a \<^verbatim>\<open>list\<close> or a \<^verbatim>\<open>dict\<close>.  A dict keeps
  its insertion order, so it is an association list (its keys are distinct).  A float
  is identified by the text \<^verbatim>\<open>repr\<close> gives for it (\<^verbatim>\<open>1.5\<close>, \<^verbatim>\<open>1e+16\<close>, \<^verbatim>\<open>nan\<close>, \<^verbatim>\<open>inf\<close>).
\<close>

datatype json =
    JNull
  | JBool bool
  | JInt int
  | JFloat string
  | JStr string
  | JArr "json list"
  | JObj "(string \<times> json) list"

text \<open>
  The exceptions the calls of the body raise.  All of them derive from Python's
  \<^verbatim>\<open>Exception\<close>; \<^verbatim>\<open>JSONDecodeError\<close> carries the parser's message.
\<close>

datatype exn =
    JSONDecodeError string
  | FileNotFoundError
  | IsADirectoryError
  | PermissionError
  | UnicodeError
  | LookupError
  | AttributeError
  | TypeError
  | ValueError
  | OtherException string

text \<open>
  A \<^verbatim>\<open>DataFrame\<close>: the row labels (its index), the column labels and the cells, row by
  row.  A label is a dict key or a position of a default \<^verbatim>\<open>RangeIndex\<close>.  A cell is
  \<open>None\<close> where pandas fills in \<^verbatim>\<open>NaN\<close> for a key the row does not have.
\<close>

datatype label = LStr string | LInt nat

record frame =
  index :: "label list"
  columns :: "label list"
  cells :: "json option list list"

text \<open>
  What the function prints, one constructor per \<^verbatim>\<open>print\<close> of the source, with the data
  the line shows.
\<close>

datatype msg =
    MsgNotExists string
  | MsgReading string
  | MsgUnsupported
  | MsgLoaded
  | MsgDimensions nat nat
  | MsgColumns "label list"
  | MsgHeadTitle
  | MsgHead frame
  | MsgSaving string
  | MsgDone
  | MsgCreated string
  | MsgSize nat
  | MsgNotCreated
  | MsgDecodeError string
  | MsgUnexpected exn

text \<open>
  The world the function acts on: the file system (a path names a file with its text,
  a directory, or nothing), the paths that cannot be opened for reading or for writing
  (whatever the reason: permissions, a missing parent directory, a full disk), and the
  console.
\<close>

datatype node = File string | Dir

record world =
  nodes :: "string \<Rightarrow> node option"
  no_read :: "string set"
  no_write :: "string set"
  console :: "msg list"

definition print :: "msg \<Rightarrow> world \<Rightarrow> world" where
  "print m w = w\<lparr>console := console w @ [m]\<rparr>"

definition prints :: "msg list \<Rightarrow> world \<Rightarrow> world" where
  "prints ms w = w\<lparr>console := console w @ ms\<rparr>"

definition path_exists :: "world \<Rightarrow> string \<Rightarrow> bool" where
  \<comment> \<open>\<^verbatim>\<open>os.path.exists\<close>\<close>
  "path_exists w p = (nodes w p \<noteq> None)"

definition open_read :: "world \<Rightarrow> string \<Rightarrow> exn + string" where
  \<comment> \<open>\<^verbatim>\<open>open(p, 'r')\<close> and reading the whole file\<close>
  "open_read w p =
     (case nodes w p of
        None \<Rightarrow> Inl FileNotFoundError
      | Some Dir \<Rightarrow> Inl IsADirectoryError
      | Some (File t) \<Rightarrow> if p \<in> no_read w then Inl PermissionError else Inr t)"

definition open_write :: "world \<Rightarrow> string \<Rightarrow> exn + world" where
  \<comment> \<open>opening \<open>p\<close> for writing creates the file or truncates it\<close>
  "open_write w p =
     (case nodes w p of
        Some Dir \<Rightarrow> Inl IsADirectoryError
      | _ \<Rightarrow> if p \<in> no_write w then Inl PermissionError
             else Inr (w\<lparr>nodes := (nodes w)(p \<mapsto> File [])\<rparr>))"

definition getsize :: "world \<Rightarrow> string \<Rightarrow> nat" where
  \<comment> \<open>\<^verbatim>\<open>os.path.getsize\<close> of a file that exists\<close>
  "getsize w p = (case nodes w p of Some (File t) \<Rightarrow> length t | _ \<Rightarrow> 0)"

section \<open>The library calls\<close>

text \<open>
  \<^verbatim>\<open>json\<close>, \<^verbatim>\<open>pandas\<close> and \<^verbatim>\<open>pathlib\<close> are not part of the repository.  The function is
  modelled over a record of the five calls it makes:
  \<^item> \<open>json_load encoding text\<close>: decoding and parsing the text of the input file;
  \<^item> \<open>DataFrame data\<close>: \<^verbatim>\<open>pd.DataFrame(data)\<close> for a list;
  \<^item> \<open>from_dict data\<close>: \<^verbatim>\<open>pd.DataFrame.from_dict(data, orient='index')\<close> for a dict;
  \<^item> \<open>to_csv df encoding\<close>: the text \<^verbatim>\<open>df.to_csv(path, index=True, encoding=encoding)\<close>
    writes once the destination is open, and the exception that stopped it, if any;
  \<^item> \<open>stem path\<close>: \<^verbatim>\<open>Path(path).stem\<close>.
  Section ``pandas'' below gives the calls pandas answers.
\<close>

record lib =
  json_load :: "string \<Rightarrow> string \<Rightarrow> exn + json"
  DataFrame :: "json list \<Rightarrow> exn + frame"
  from_dict :: "(string \<times> json) list \<Rightarrow> exn + frame"
  to_csv :: "frame \<Rightarrow> string \<Rightarrow> string \<times> exn option"
  stem :: "string \<Rightarrow> string"

section \<open>\<open>json_to_csv\<close>\<close>

text \<open>
  The result of a block of statements is the exception it raised (\<open>Inl\<close>) or the value
  it returned (\<open>Inr\<close>), with the world it left behind: what was printed or written
  before an exception stays.
\<close>

type_synonym 'a result = "(exn + 'a) \<times> world"

definition head :: "frame \<Rightarrow> frame" where
  \<comment> \<open>\<^verbatim>\<open>df.head()\<close>: the first five rows\<close>
  "head df = df\<lparr>index := take 5 (index df), cells := take 5 (cells df)\<rparr>"

definition output_path :: "lib \<Rightarrow> string \<Rightarrow> string option \<Rightarrow> string" where
  \<comment> \<open>step 4: the given path, or the input's stem with \<^verbatim>\<open>_converted.csv\<close>\<close>
  "output_path L json_file_path csv_file_path =
     (case csv_file_path of
        None \<Rightarrow> stem L json_file_path @ ''_converted.csv''
      | Some p \<Rightarrow> p)"

definition write_csv :: "lib \<Rightarrow> world \<Rightarrow> frame \<Rightarrow> string \<Rightarrow> string \<Rightarrow> exn option \<times> world" where
  \<comment> \<open>step 6, \<^verbatim>\<open>df.to_csv(csv_file_path, index=True, encoding=encoding)\<close>\<close>
  "write_csv L w df csv_path encoding =
     (case open_write w csv_path of
        Inl e \<Rightarrow> (Some e, w)
      | Inr w' \<Rightarrow>
          (case to_csv L df encoding of
             (text, err) \<Rightarrow> (err, w'\<lparr>nodes := (nodes w')(csv_path \<mapsto> File text)\<rparr>)))"

definition export_csv ::
  "lib \<Rightarrow> world \<Rightarrow> frame \<Rightarrow> string \<Rightarrow> string option \<Rightarrow> string \<Rightarrow> bool result" where
  \<comment> \<open>steps 4 to 7\<close>
  "export_csv L w df json_file_path csv_file_path encoding =
     (let csv_path = output_path L json_file_path csv_file_path;
          w2 = prints [MsgLoaded,
                       MsgDimensions (length (index df)) (length (columns df)),
                       MsgColumns (columns df),
                       MsgHeadTitle,
                       MsgHead (head df),
                       MsgSaving csv_path] w
      in case write_csv L w2 df csv_path encoding of
           (Some e, w3) \<Rightarrow> (Inl e, w3)
         | (None, w3) \<Rightarrow>
             if path_exists w3 csv_path
             then (Inr True, prints [MsgDone, MsgCreated csv_path, MsgSize (getsize w3 csv_path)] w3)
             else (Inr False, print MsgNotCreated w3))"

definition make_frame :: "lib \<Rightarrow> json \<Rightarrow> (exn + frame) option" where
  \<comment> \<open>step 3: the \<^verbatim>\<open>isinstance\<close> chain; \<open>None\<close> is its \<^verbatim>\<open>else\<close> branch\<close>
  "make_frame L data =
     (case data of
        JObj items \<Rightarrow> Some (from_dict L items)
      | JArr xs \<Rightarrow> Some (DataFrame L xs)
      | _ \<Rightarrow> None)"

definition json_to_csv_body ::
  "lib \<Rightarrow> world \<Rightarrow> string \<Rightarrow> string option \<Rightarrow> string \<Rightarrow> bool result" where
  \<comment> \<open>the \<^verbatim>\<open>try\<close> block\<close>
  "json_to_csv_body L w json_file_path csv_file_path encoding =
     (if \<not> path_exists w json_file_path
      then (Inr False, print (MsgNotExists json_file_path) w)
      else
        let w1 = print (MsgReading json_file_path) w in
        case open_read w1 json_file_path of
          Inl e \<Rightarrow> (Inl e, w1)
        | Inr text \<Rightarrow>
            (case json_load L encoding text of
               Inl e \<Rightarrow> (Inl e, w1)
             | Inr data \<Rightarrow>
                 (case make_frame L data of
                    None \<Rightarrow> (Inr False, print MsgUnsupported w1)
                  | Some (Inl e) \<Rightarrow> (Inl e, w1)
                  | Some (Inr df) \<Rightarrow>
                      export_csv L w1 df json_file_path csv_file_path encoding)))"

text \<open>
  \<^verbatim>\<open>try ... except\<close>: the first clause that matches the exception runs; an exception no
  clause matches propagates.
\<close>

definition try_except :: "'a result \<Rightarrow> (exn \<Rightarrow> (world \<Rightarrow> 'a result) option) list \<Rightarrow> 'a result" where
  "try_except r clauses =
     (case r of
        (Inr v, w) \<Rightarrow> (Inr v, w)
      | (Inl e, w) \<Rightarrow>
          (case List.map_filter (\<lambda>c. c e) clauses of
             [] \<Rightarrow> (Inl e, w)
           | h # _ \<Rightarrow> h w))"

definition except_JSONDecodeError :: "exn \<Rightarrow> (world \<Rightarrow> bool result) option" where
  \<comment> \<open>\<^verbatim>\<open>except json.JSONDecodeError as e\<close>\<close>
  "except_JSONDecodeError e =
     (case e of
        JSONDecodeError d \<Rightarrow> Some (\<lambda>w. (Inr False, print (MsgDecodeError d) w))
      | _ \<Rightarrow> None)"

definition except_Exception :: "exn \<Rightarrow> (world \<Rightarrow> bool result) option" where
  \<comment> \<open>\<^verbatim>\<open>except Exception as e\<close>\<close>
  "except_Exception e = Some (\<lambda>w. (Inr False, print (MsgUnexpected e) w))"

definition json_to_csv ::
  "lib \<Rightarrow> world \<Rightarrow> string \<Rightarrow> string option \<Rightarrow> string \<Rightarrow> bool result" where
  "json_to_csv L w json_file_path csv_file_path encoding =
     try_except (json_to_csv_body L w json_file_path csv_file_path encoding)
       [except_JSONDecodeError, except_Exception]"

section \<open>pandas\<close>

text \<open>
  What \<^verbatim>\<open>pandas\<close> answers to the three calls, for the documents the function is meant
  for: a list of dicts, a dict of dicts, and a list or dict of scalars.  The parts of
  Python and pandas this development does not describe are taken as given, in a record:
  \<^item> \<open>load\<close>: \<^verbatim>\<open>json.load\<close> (decoding and parsing);
  \<^item> \<open>str_repr\<close>: \<^verbatim>\<open>repr\<close> of a \<^verbatim>\<open>str\<close>;
  \<^item> \<open>numeric_text col v\<close>: the text of the number \<open>v\<close> in a column \<open>col\<close> that pandas
    holds as floating point numbers (a float or a missing value stands among its
    numbers);
  \<^item> \<open>irregular\<close>: what pandas answers to a list whose first element is a list or is
    followed by a container, and to a dict whose values are neither all dicts nor all
    scalars;
  \<^item> \<open>codec\<close>: writing a text through an encoding other than \<^verbatim>\<open>utf-8\<close>;
  \<^item> \<open>linesep\<close>: \<^verbatim>\<open>os.linesep\<close>, the line terminator \<^verbatim>\<open>to_csv\<close> uses;
  \<^item> \<open>path_stem\<close>: \<^verbatim>\<open>Path(p).stem\<close>.
\<close>

record pyenv =
  load :: "string \<Rightarrow> string \<Rightarrow> exn + json"
  str_repr :: "string \<Rightarrow> string"
  numeric_text :: "json option list \<Rightarrow> json \<Rightarrow> string"
  irregular :: "json \<Rightarrow> exn + frame"
  codec :: "string \<Rightarrow> string \<Rightarrow> string \<times> exn option"
  linesep :: string
  path_stem :: "string \<Rightarrow> string"

subsection \<open>Building the frame\<close>

fun is_obj :: "json \<Rightarrow> bool" where
  "is_obj (JObj _) = True"
| "is_obj _ = False"

fun is_arr :: "json \<Rightarrow> bool" where
  "is_arr (JArr _) = True"
| "is_arr _ = False"

definition is_scalar :: "json \<Rightarrow> bool" where
  "is_scalar v = (\<not> is_obj v \<and> \<not> is_arr v)"

fun items :: "json \<Rightarrow> (string \<times> json) list" where
  "items (JObj d) = d"
| "items _ = []"

definition keys :: "(string \<times> json) list \<Rightarrow> string list" where
  "keys d = map fst d"

text \<open>
  \<^verbatim>\<open>lib.fast_unique_multiple_list_gen(gen, sort=False)\<close>: the values of the lists of
  \<open>gen\<close>, each kept where it is first seen.
\<close>

fun unique_add :: "'a list \<Rightarrow> 'a list \<Rightarrow> 'a list" where
  "unique_add uniques [] = uniques"
| "unique_add uniques (v # buf) =
     unique_add (if v \<in> set uniques then uniques else uniques @ [v]) buf"

fun fast_unique :: "'a list \<Rightarrow> 'a list list \<Rightarrow> 'a list" where
  "fast_unique uniques [] = uniques"
| "fast_unique uniques (buf # gen) = fast_unique (unique_add uniques buf) gen"

definition fast_unique_multiple_list_gen :: "'a list list \<Rightarrow> 'a list" where
  "fast_unique_multiple_list_gen gen = fast_unique [] gen"

definition empty_frame :: frame where
  "empty_frame = \<lparr>index = [], columns = [], cells = []\<rparr>"

definition default_index :: "nat \<Rightarrow> label list" where
  \<comment> \<open>\<^verbatim>\<open>RangeIndex(n)\<close>\<close>
  "default_index n = map LInt [0..<n]"

definition list_of_dicts_frame :: "(string \<times> json) list list \<Rightarrow> frame" where
  \<comment> \<open>a list of dicts: the columns are the keys in first-seen order, a row holds
      \<^verbatim>\<open>row.get(col, NaN)\<close> for every column\<close>
  "list_of_dicts_frame dicts =
     (let cols = fast_unique_multiple_list_gen (map keys dicts)
      in \<lparr>index = default_index (length dicts),
          columns = map LStr cols,
          cells = map (\<lambda>d. map (\<lambda>c. map_of d c) cols) dicts\<rparr>)"

definition single_column_frame :: "label list \<Rightarrow> json list \<Rightarrow> frame" where
  \<comment> \<open>a list of scalars: one column, labelled \<open>0\<close>\<close>
  "single_column_frame idx values =
     \<lparr>index = idx, columns = [LInt 0], cells = map (\<lambda>v. [Some v]) values\<rparr>"

definition pd_DataFrame :: "pyenv \<Rightarrow> json list \<Rightarrow> exn + frame" where
  \<comment> \<open>\<^verbatim>\<open>pd.DataFrame(data)\<close>; a list that starts with a dict is read as a list of dicts,
      and \<^verbatim>\<open>x.keys()\<close> raises on an element that is not one\<close>
  "pd_DataFrame P data =
     (case data of
        [] \<Rightarrow> Inr empty_frame
      | x # _ \<Rightarrow>
          if is_obj x then
            (if list_all is_obj data then Inr (list_of_dicts_frame (map items data))
             else Inl AttributeError)
          else if list_all is_scalar data
          then Inr (single_column_frame (default_index (length data)) data)
          else irregular P (JArr data))"

definition dict_of_dicts_frame :: "(string \<times> json) list \<Rightarrow> frame" where
  \<comment> \<open>a dict of dicts: one row per outer key, in the order of the keys, labelled by the
      key; the columns are the inner keys in first-seen order, a row holds
      \<^verbatim>\<open>row.get(col, NaN)\<close> for every column\<close>
  "dict_of_dicts_frame data =
     (let cols = fast_unique_multiple_list_gen (map (\<lambda>(idx, s). keys (items s)) data)
      in \<lparr>index = map LStr (keys data),
          columns = map LStr cols,
          cells = map (\<lambda>(idx, s). map (\<lambda>c. map_of (items s) c) cols) data\<rparr>)"

definition pd_from_dict :: "pyenv \<Rightarrow> (string \<times> json) list \<Rightarrow> exn + frame" where
  \<comment> \<open>\<^verbatim>\<open>pd.DataFrame.from_dict(data, orient='index')\<close>, as pandas 3 answers (earlier
      versions order the rows of a dict of dicts by column and give no row to an empty
      inner dict)\<close>
  "pd_from_dict P data =
     (case data of
        [] \<Rightarrow> Inr empty_frame
      | (k, v) # _ \<Rightarrow>
          if list_all (\<lambda>(idx, s). is_obj s) data
          then Inr (dict_of_dicts_frame data)
          else if list_all (\<lambda>(idx, s). is_scalar s) data
          then Inr (single_column_frame (map LStr (keys data)) (map snd data))
          else irregular P (JObj data))"

subsection \<open>Writing the frame\<close>

definition digit_char :: "nat \<Rightarrow> char" where
  "digit_char d = ''0123456789'' ! d"

fun str_nat :: "nat \<Rightarrow> string" where
  "str_nat n = (if n < 10 then [digit_char n] else str_nat (n div 10) @ [digit_char (n mod 10)])"

definition str_int :: "int \<Rightarrow> string" where
  \<comment> \<open>\<^verbatim>\<open>str\<close> of an \<^verbatim>\<open>int\<close>\<close>
  "str_int i = (if i < 0 then CHR ''-'' # str_nat (nat (- i)) else str_nat (nat i))"

definition str_bool :: "bool \<Rightarrow> string" where
  "str_bool b = (if b then ''True'' else ''False'')"

fun join :: "string \<Rightarrow> string list \<Rightarrow> string" where
  \<comment> \<open>\<^verbatim>\<open>sep.join(xs)\<close>\<close>
  "join sep [] = []"
| "join sep [x] = x"
| "join sep (x # y # ys) = x @ sep @ join sep (y # ys)"

fun py_repr :: "pyenv \<Rightarrow> json \<Rightarrow> string" where
  \<comment> \<open>\<^verbatim>\<open>repr\<close> of a parsed value; \<^verbatim>\<open>str\<close> of a list or a dict is its \<^verbatim>\<open>repr\<close>\<close>
  "py_repr P JNull = ''None''"
| "py_repr P (JBool b) = str_bool b"
| "py_repr P (JInt i) = str_int i"
| "py_repr P (JFloat r) = r"
| "py_repr P (JStr s) = str_repr P s"
| "py_repr P (JArr xs) = ''['' @ join '', '' (map (py_repr P) xs) @ '']''"
| "py_repr P (JObj d) =
     ''{'' @ join '', '' (map (\<lambda>kv. str_repr P (fst kv) @ '': '' @ py_repr P (snd kv)) d) @ ''}''"

definition is_na :: "json option \<Rightarrow> bool" where
  \<comment> \<open>\<^verbatim>\<open>isna\<close>: a missing cell, \<^verbatim>\<open>None\<close> or the float \<^verbatim>\<open>nan\<close>\<close>
  "is_na c = (c = None \<or> c = Some JNull \<or> c = Some (JFloat ''nan''))"

fun forces_object :: "json option \<Rightarrow> bool" where
  \<comment> \<open>a \<^verbatim>\<open>str\<close>, \<^verbatim>\<open>list\<close>, \<^verbatim>\<open>dict\<close> or \<^verbatim>\<open>bool\<close> keeps the numbers of its column as they are\<close>
  "forces_object (Some (JStr _)) = True"
| "forces_object (Some (JArr _)) = True"
| "forces_object (Some (JObj _)) = True"
| "forces_object (Some (JBool _)) = True"
| "forces_object _ = False"

fun float_or_missing :: "json option \<Rightarrow> bool" where
  "float_or_missing None = True"
| "float_or_missing (Some JNull) = True"
| "float_or_missing (Some (JFloat _)) = True"
| "float_or_missing _ = False"

definition float_column :: "json option list \<Rightarrow> bool" where
  \<comment> \<open>the column is converted to floating point: numbers only, a float or a missing
      value among them\<close>
  "float_column col = (\<not> list_ex forces_object col \<and> list_ex float_or_missing col)"

definition cell_text :: "pyenv \<Rightarrow> json option list \<Rightarrow> json option \<Rightarrow> string" where
  \<comment> \<open>the field \<^verbatim>\<open>to_csv\<close> writes for a cell of the column \<open>col\<close>; \<^verbatim>\<open>na_rep\<close> is empty\<close>
  "cell_text P col c =
     (if is_na c then []
      else case c of
        None \<Rightarrow> []
      | Some v \<Rightarrow>
          (case v of
             JNull \<Rightarrow> []
           | JBool b \<Rightarrow> str_bool b
           | JInt i \<Rightarrow> if float_column col then numeric_text P col v else str_int i
           | JFloat r \<Rightarrow> if float_column col then numeric_text P col v else r
           | JStr s \<Rightarrow> s
           | JArr xs \<Rightarrow> py_repr P v
           | JObj d \<Rightarrow> py_repr P v))"

fun label_text :: "label \<Rightarrow> string" where
  "label_text (LStr s) = s"
| "label_text (LInt n) = str_nat n"

definition column_cells :: "frame \<Rightarrow> nat \<Rightarrow> json option list" where
  "column_cells df j = map (\<lambda>row. row ! j) (cells df)"

definition row_fields :: "pyenv \<Rightarrow> frame \<Rightarrow> label \<Rightarrow> json option list \<Rightarrow> string list" where
  \<comment> \<open>the row's label (\<^verbatim>\<open>index=True\<close>), then one field per column\<close>
  "row_fields P df lab row =
     label_text lab # map (\<lambda>j. cell_text P (column_cells df j) (row ! j)) [0..<length (columns df)]"

definition csv_rows :: "pyenv \<Rightarrow> frame \<Rightarrow> string list list" where
  \<comment> \<open>the header (the index has no name: its label is empty), then the rows\<close>
  "csv_rows P df =
     ([] # map label_text (columns df)) # map2 (row_fields P df) (index df) (cells df)"

text \<open>
  \<^verbatim>\<open>csv.writer\<close> with pandas' dialect: comma, double quote, \<^verbatim>\<open>QUOTE_MINIMAL\<close>, quotes
  doubled.  A field is quoted when it holds the delimiter, the quote character or a
  character of the line terminator.  A record that would be empty (one empty field) is
  written as \<^verbatim>\<open>""\<close>.
\<close>

definition special_char :: "pyenv \<Rightarrow> char \<Rightarrow> bool" where
  "special_char P c = (c = CHR '','' \<or> c = CHR 0x22 \<or> c \<in> set (linesep P))"

definition quote_field :: "pyenv \<Rightarrow> string \<Rightarrow> string" where
  "quote_field P s =
     (if list_ex (special_char P) s
      then CHR 0x22 # concat (map (\<lambda>c. if c = CHR 0x22 then [c, c] else [c]) s) @ [CHR 0x22]
      else s)"

definition csv_line :: "pyenv \<Rightarrow> string list \<Rightarrow> string" where
  "csv_line P flds =
     (let line = join '','' (map (quote_field P) flds)
      in (if flds \<noteq> [] \<and> line = [] then [CHR 0x22, CHR 0x22] else line) @ linesep P)"

definition csv_text :: "pyenv \<Rightarrow> string list list \<Rightarrow> string" where
  "csv_text P rows = concat (map (csv_line P) rows)"

definition pd_to_csv :: "pyenv \<Rightarrow> frame \<Rightarrow> string \<Rightarrow> string \<times> exn option" where
  \<comment> \<open>\<^verbatim>\<open>df.to_csv(path, index=True, encoding=encoding)\<close>\<close>
  "pd_to_csv P df encoding =
     (let text = csv_text P (csv_rows P df)
      in if encoding = ''utf-8'' then (text, None) else codec P encoding text)"

definition pandas :: "pyenv \<Rightarrow> lib" where
  "pandas P =
     \<lparr>json_load = load P,
      DataFrame = pd_DataFrame P,
      from_dict = pd_from_dict P,
      to_csv = pd_to_csv P,
      stem = path_stem P\<rparr>"

section \<open>What a call leaves behind\<close>

text \<open>
  Whether \<open>p\<close> can be opened for writing, and the text a call of \<open>json_to_csv\<close> leaves
  at its output path: none unless the input was read and parsed, a frame was built
  and the destination was opened.
\<close>

definition writable :: "world \<Rightarrow> string \<Rightarrow> bool" where
  "writable w p = (case open_write w p of Inl e \<Rightarrow> False | Inr w' \<Rightarrow> True)"

definition csv_written :: "lib \<Rightarrow> world \<Rightarrow> string \<Rightarrow> string option \<Rightarrow> string \<Rightarrow> string option" where
  "csv_written L w json_file_path csv_file_path encoding =
     (case open_read w json_file_path of
        Inl e \<Rightarrow> None
      | Inr text \<Rightarrow>
          (case json_load L encoding text of
             Inl e \<Rightarrow> None
           | Inr data \<Rightarrow>
               (case make_frame L data of
                  Some (Inr df) \<Rightarrow>
                    (if writable w (output_path L json_file_path csv_file_path)
                     then Some (fst (to_csv L df encoding)) else None)
                | _ \<Rightarrow> None)))"

definition put_file ::
  "string \<Rightarrow> string option \<Rightarrow> (string \<Rightarrow> node option) \<Rightarrow> (string \<Rightarrow> node option)" where
  "put_file p t fs = (case t of None \<Rightarrow> fs | Some text \<Rightarrow> fs(p \<mapsto> File text))"

definition success_lines :: "frame \<Rightarrow> string \<Rightarrow> string \<Rightarrow> string \<Rightarrow> msg list" where
  \<comment> \<open>the console of a call that runs to its end\<close>
  "success_lines df json_file_path csv_path text =
     [MsgReading json_file_path,
      MsgLoaded,
      MsgDimensions (length (index df)) (length (columns df)),
      MsgColumns (columns df),
      MsgHeadTitle,
      MsgHead (head df),
      MsgSaving csv_path,
      MsgDone,
      MsgCreated csv_path,
      MsgSize (length text)]"

section \<open>Notions of the specification\<close>

text \<open>
  First-seen order, in the specification's words: every value, at the place of its
  first appearance.  \<open>first_pos a ks\<close> is the position at which \<open>a\<close> first appears.
\<close>

primrec first_seen :: "'a list \<Rightarrow> 'a list" where
  "first_seen [] = []"
| "first_seen (x # xs) = x # filter (\<lambda>y. y \<noteq> x) (first_seen xs)"

definition first_pos :: "'a \<Rightarrow> 'a list \<Rightarrow> nat" where
  "first_pos a ks = length (takeWhile (\<lambda>x. x \<noteq> a) ks)"

text \<open>
  A valid document is an array of objects or an object of objects (a dict has
  distinct keys).  \<open>row_dict data lab\<close> is the object the row labelled \<open>lab\<close> comes
  from: the element at that position, or the value of that outer key.
\<close>

definition object_of_objects :: "(string \<times> json) list \<Rightarrow> bool" where
  "object_of_objects d = (list_all (\<lambda>(k, v). is_obj v) d \<and> distinct (keys d))"

fun valid_document :: "json \<Rightarrow> bool" where
  "valid_document (JArr xs) = list_all is_obj xs"
| "valid_document (JObj d) = object_of_objects d"
| "valid_document _ = False"

fun row_dict :: "json \<Rightarrow> label \<Rightarrow> (string \<times> json) list" where
  "row_dict (JArr xs) (LInt i) = (if i < length xs then items (xs ! i) else [])"
| "row_dict (JObj d) (LStr k) = (case map_of d k of Some s \<Rightarrow> items s | None \<Rightarrow> [])"
| "row_dict _ _ = []"

text \<open>
  The CSV reader of the specification's round trip, with its quoting rules in the
  specification's words: fields are separated by commas, a record
  ends at the line terminator, a quoted field may hold any character, and a quote
  character inside it is written twice.  \<open>read_csv_from\<close> carries the state of the
  reader: whether it is inside quotes, the field and the record read so far.
\<close>

fun read_csv_from :: "string \<Rightarrow> bool \<Rightarrow> string \<Rightarrow> string list \<Rightarrow> string \<Rightarrow> string list list" where
  "read_csv_from eol quoted fld rec [] = (if fld = [] \<and> rec = [] then [] else [rec @ [fld]])"
| "read_csv_from eol False fld rec (c # cs) =
     (if c = CHR 0x22 then read_csv_from eol True fld rec cs
      else if c = CHR '','' then read_csv_from eol False [] (rec @ [fld]) cs
      else if eol \<noteq> [] \<and> take (length eol) (c # cs) = eol
      then (rec @ [fld]) # read_csv_from eol False [] [] (drop (length eol) (c # cs))
      else read_csv_from eol False (fld @ [c]) rec cs)"
| "read_csv_from eol True fld rec (c # cs) =
     (if c \<noteq> CHR 0x22 then read_csv_from eol True (fld @ [c]) rec cs
      else if cs \<noteq> [] \<and> hd cs = CHR 0x22 then read_csv_from eol True (fld @ [c]) rec (tl cs)
      else read_csv_from eol False fld rec cs)"

definition read_csv :: "string \<Rightarrow> string \<Rightarrow> string list list" where
  "read_csv eol text = read_csv_from eol False [] [] text"

definition os_linesep :: "pyenv \<Rightarrow> bool" where
  \<comment> \<open>\<^verbatim>\<open>os.linesep\<close> is a newline, or a carriage return and a newline\<close>
  "os_linesep P = (linesep P = [CHR 0x0A] \<or> linesep P = [CHR 0x0D, CHR 0x0A])"

text \<open>
  The canonical JSON text of a value, in the specification's words: the compact form of
  RFC 8259, members in their order.
\<close>

definition hex_digit :: "nat \<Rightarrow> char" where
  "hex_digit d = ''0123456789abcdef'' ! d"

definition json_escape :: "char \<Rightarrow> string" where
  "json_escape c =
     (if c = CHR 0x22 then [CHR 0x5C, CHR 0x22]
      else if c = CHR 0x5C then [CHR 0x5C, CHR 0x5C]
      else if of_char c < (32 :: nat)
      then [CHR 0x5C, CHR ''u'', CHR ''0'', CHR ''0'',
            hex_digit (of_char c div 16), hex_digit (of_char c mod 16)]
      else [c])"

definition json_string :: "string \<Rightarrow> string" where
  "json_string s = CHR 0x22 # concat (map json_escape s) @ [CHR 0x22]"

fun canonical_json_text :: "json \<Rightarrow> string" where
  "canonical_json_text JNull = ''null''"
| "canonical_json_text (JBool b) = (if b then ''true'' else ''false'')"
| "canonical_json_text (JInt i) = str_int i"
| "canonical_json_text (JFloat r) = r"
| "canonical_json_text (JStr s) = json_string s"
| "canonical_json_text (JArr xs) = ''['' @ join '','' (map canonical_json_text xs) @ '']''"
| "canonical_json_text (JObj d) =
     ''{'' @ join '','' (map (\<lambda>kv. json_string (fst kv) @ '':'' @ canonical_json_text (snd kv)) d) @ ''}''"

section \<open>Example runs\<close>

text \<open>
  The examples run on a POSIX system (\<^verbatim>\<open>os.linesep\<close> is a newline).  \<open>loads text doc\<close>
  is \<^verbatim>\<open>json.load\<close> on the text of an example's document and on the empty text, which
  it rejects.  The documents of the examples hold plain keys and strings, booleans and
  small integers, and every call names its output path and writes \<^verbatim>\<open>utf-8\<close>; the other
  fields are set to what Python answers on such data: \<^verbatim>\<open>repr\<close> puts a plain string
  between single quotes, a small integer in a floating point column is written with
  \<^verbatim>\<open>.0\<close>.  No example reaches \<open>irregular\<close>, \<open>codec\<close> or \<open>path_stem\<close>.
\<close>

definition loads :: "string \<Rightarrow> json \<Rightarrow> string \<Rightarrow> string \<Rightarrow> exn + json" where
  "loads text doc encoding t =
     (if t = text then Inr doc
      else Inl (JSONDecodeError ''Expecting value: line 1 column 1 (char 0)''))"

definition example_py :: "(string \<Rightarrow> string \<Rightarrow> exn + json) \<Rightarrow> pyenv" where
  "example_py ld =
     \<lparr>load = ld,
      str_repr = (\<lambda>s. CHR 0x27 # s @ [CHR 0x27]),
      numeric_text = (\<lambda>col v. case v of JInt i \<Rightarrow> str_int i @ ''.0'' | JFloat r \<Rightarrow> r | _ \<Rightarrow> []),
      irregular = (\<lambda>d. Inl ValueError),
      codec = (\<lambda>encoding t. (t, None)),
      linesep = [CHR 0x0A],
      path_stem = (\<lambda>p. p)\<rparr>"

definition disk :: "(string \<times> node) list \<Rightarrow> world" where
  "disk files = \<lparr>nodes = map_of files, no_read = {}, no_write = {}, console = []\<rparr>"

definition pokemon_array :: json where
  \<comment> \<open>\<^verbatim>\<open>[{"name":"Bulbasaur","type":"Grass"},{"name":"Charmander","type":"Fire"}]\<close>\<close>
  "pokemon_array =
     JArr [JObj [(''name'', JStr ''Bulbasaur''), (''type'', JStr ''Grass'')],
           JObj [(''name'', JStr ''Charmander''), (''type'', JStr ''Fire'')]]"

definition pokemon_object :: json where
  \<comment> \<open>\<^verbatim>\<open>{"001":{"name":"Bulbasaur"},"004":{"name":"Charmander"}}\<close>\<close>
  "pokemon_object =
     JObj [(''001'', JObj [(''name'', JStr ''Bulbasaur'')]),
           (''004'', JObj [(''name'', JStr ''Charmander'')])]"

definition three_rows :: json where
  \<comment> \<open>\<^verbatim>\<open>[{"id":1},{"id":2},{"id":3}]\<close>\<close>
  "three_rows = JArr [JObj [(''id'', JInt 1)], JObj [(''id'', JInt 2)], JObj [(''id'', JInt 3)]]"

definition unsorted_keys :: json where
  \<comment> \<open>\<^verbatim>\<open>[{"b":1,"a":2},{"c":3,"a":4}]\<close>\<close>
  "unsorted_keys =
     JArr [JObj [(''b'', JInt 1), (''a'', JInt 2)], JObj [(''c'', JInt 3), (''a'', JInt 4)]]"

definition nested_value :: json where
  \<comment> \<open>\<^verbatim>\<open>[{"a":[true]}]\<close>\<close>
  "nested_value = JArr [JObj [(''a'', JArr [JBool True])]]"

definition mixed_array :: json where
  \<comment> \<open>\<^verbatim>\<open>[{"a":1},2]\<close>\<close>
  "mixed_array = JArr [JObj [(''a'', JInt 1)], JInt 2]"

definition nested_object :: json where
  \<comment> \<open>\<^verbatim>\<open>[{"a":{"b":1,"c":[false]}}]\<close>\<close>
  "nested_object = JArr [JObj [(''a'', JObj [(''b'', JInt 1), (''c'', JArr [JBool False])])]]"

definition keyed_rows :: json where
  \<comment> \<open>\<^verbatim>\<open>{"a,b":{"x":"y"},"c":{}}\<close>\<close>
  "keyed_rows = JObj [(''a,b'', JObj [(''x'', JStr ''y'')]), (''c'', JObj [])]"

definition quoted_value :: json where
  \<comment> \<open>\<^verbatim>\<open>[{"name":"Mime, Jr","type":"Psychic"},{"name":"Abra"}]\<close>\<close>
  "quoted_value =
     JArr [JObj [(''name'', JStr ''Mime, Jr''), (''type'', JStr ''Psychic'')],
           JObj [(''name'', JStr ''Abra'')]]"

definition example_lib :: "json \<Rightarrow> lib" where
  "example_lib doc = pandas (example_py (loads (canonical_json_text doc) doc))"

definition example_disk :: "json \<Rightarrow> world" where
  \<comment> \<open>the document's text in \<^verbatim>\<open>in.json\<close>, and an empty file\<close>
  "example_disk doc = disk [(''in.json'', File (canonical_json_text doc)), (''empty.json'', File [])]"

definition example_run :: "json \<Rightarrow> bool result" where
  "example_run doc =
     json_to_csv (example_lib doc) (example_disk doc) ''in.json'' (Some ''out.csv'') ''utf-8''"

section \<open>The call, step by step\<close>

lemma open_read_console [simp]: "open_read (w\<lparr>console := c\<rparr>) p = open_read w p"
  by (simp add: open_read_def split: option.splits node.splits)

lemma writable_console [simp]: "writable (w\<lparr>console := c\<rparr>) p = writable w p"
  by (simp add: writable_def open_write_def split: option.splits node.splits)

lemma print_frame [simp]:
  "nodes (print m w) = nodes w" "no_read (print m w) = no_read w"
  "no_write (print m w) = no_write w" "console (print m w) = console w @ [m]"
  by (simp_all add: print_def)

lemma write_csv_unwritable:
  "\<not> writable w p \<Longrightarrow> \<exists>e. write_csv L w df p enc = (Some e, w)"
  by (simp add: write_csv_def writable_def split: sum.splits)

lemma write_csv_writable:
  "writable w p \<Longrightarrow>
   write_csv L w df p enc =
     (snd (to_csv L df enc), w\<lparr>nodes := (nodes w)(p \<mapsto> File (fst (to_csv L df enc)))\<rparr>)"
  by (simp add: write_csv_def writable_def open_write_def split: option.splits node.splits prod.splits if_splits)

lemma write_csv_nodes:
  "nodes (snd (write_csv L w df p enc)) =
     put_file p (if writable w p then Some (fst (to_csv L df enc)) else None) (nodes w)"
  by (simp add: write_csv_def open_write_def writable_def put_file_def
      split: option.splits node.splits prod.splits)

lemma write_csv_perm:
  "no_read (snd (write_csv L w df p enc)) = no_read w"
  "no_write (snd (write_csv L w df p enc)) = no_write w"
  by (simp_all add: write_csv_def open_write_def split: option.splits node.splits prod.splits)

lemma export_csv_nodes:
  "nodes (snd (export_csv L w df jp cp enc)) =
     put_file (output_path L jp cp)
       (if writable w (output_path L jp cp) then Some (fst (to_csv L df enc)) else None)
       (nodes w)"
proof -
  let ?out = "output_path L jp cp"
  let ?w2 = "prints [MsgLoaded, MsgDimensions (length (index df)) (length (columns df)),
     MsgColumns (columns df), MsgHeadTitle, MsgHead (head df), MsgSaving ?out] w"
  have n: "nodes ?w2 = nodes w" by (simp add: prints_def)
  have ow: "writable ?w2 ?out = writable w ?out" by (simp add: prints_def)
  obtain r w3 where wc: "write_csv L ?w2 df ?out enc = (r, w3)"
    by (cases "write_csv L ?w2 df ?out enc")
  have "nodes (snd (export_csv L w df jp cp enc)) = nodes w3"
    using wc by (simp add: export_csv_def Let_def prints_def print_def split: option.splits)
  also have "\<dots> = nodes (snd (write_csv L ?w2 df ?out enc))" using wc by simp
  finally show ?thesis by (simp only: write_csv_nodes n ow)
qed

lemma export_csv_perm:
  "no_read (snd (export_csv L w df jp cp enc)) = no_read w"
  "no_write (snd (export_csv L w df jp cp enc)) = no_write w"
proof -
  let ?out = "output_path L jp cp"
  let ?w2 = "prints [MsgLoaded, MsgDimensions (length (index df)) (length (columns df)),
     MsgColumns (columns df), MsgHeadTitle, MsgHead (head df), MsgSaving ?out] w"
  obtain r w3 where wc: "write_csv L ?w2 df ?out enc = (r, w3)"
    by (cases "write_csv L ?w2 df ?out enc")
  have "no_read w3 = no_read ?w2" "no_write w3 = no_write ?w2"
    using write_csv_perm[of L ?w2 df ?out enc] wc by simp_all
  then show "no_read (snd (export_csv L w df jp cp enc)) = no_read w"
    "no_write (snd (export_csv L w df jp cp enc)) = no_write w"
    using wc by (simp_all add: export_csv_def Let_def prints_def print_def split: option.splits)
qed

lemma export_csv_returns:
  "(fst (export_csv L w df jp cp enc) = Inr True) =
     (writable w (output_path L jp cp) \<and> snd (to_csv L df enc) = None)"
proof (cases "writable w (output_path L jp cp)")
  case False
  then have "\<not> writable (prints [MsgLoaded, MsgDimensions (length (index df)) (length (columns df)),
     MsgColumns (columns df), MsgHeadTitle, MsgHead (head df), MsgSaving (output_path L jp cp)] w)
     (output_path L jp cp)"
    by (simp add: prints_def)
  from write_csv_unwritable[OF this, of L df enc] False show ?thesis
    by (auto simp: export_csv_def Let_def)
next
  case True
  then show ?thesis
    by (simp add: export_csv_def Let_def write_csv_writable prints_def path_exists_def
        split: option.splits)
qed

lemma export_csv_success:
  assumes "writable w (output_path L jp cp)" "to_csv L df enc = (csv, None)"
  shows "export_csv L w df jp cp enc =
     (Inr True,
      w\<lparr>nodes := (nodes w)(output_path L jp cp \<mapsto> File csv),
        console := console w @ tl (success_lines df jp (output_path L jp cp) csv)\<rparr>)"
  using assms
  by (simp add: export_csv_def Let_def write_csv_writable prints_def path_exists_def getsize_def
      success_lines_def)

lemma body_nodes:
  "nodes (snd (json_to_csv_body L w jp cp enc)) =
     put_file (output_path L jp cp) (csv_written L w jp cp enc) (nodes w)"
proof (cases "path_exists w jp")
  case False
  then show ?thesis
    by (simp add: json_to_csv_body_def csv_written_def open_read_def path_exists_def put_file_def
        print_def)
next
  case True
  then show ?thesis
    by (simp add: json_to_csv_body_def csv_written_def Let_def export_csv_nodes put_file_def
        print_def split: sum.splits option.splits)
qed

lemma body_perm:
  "no_read (snd (json_to_csv_body L w jp cp enc)) = no_read w"
  "no_write (snd (json_to_csv_body L w jp cp enc)) = no_write w"
  by (simp_all add: json_to_csv_body_def Let_def export_csv_perm print_def
      split: sum.splits option.splits)

lemma body_returns:
  "(fst (json_to_csv_body L w jp cp enc) = Inr True) =
     (case open_read w jp of
        Inl e \<Rightarrow> False
      | Inr text \<Rightarrow>
          (case json_load L enc text of
             Inl e \<Rightarrow> False
           | Inr data \<Rightarrow>
               (case make_frame L data of
                  Some (Inr df) \<Rightarrow>
                    writable w (output_path L jp cp) \<and> snd (to_csv L df enc) = None
                | _ \<Rightarrow> False)))"
proof (cases "path_exists w jp")
  case False
  then show ?thesis
    by (simp add: json_to_csv_body_def open_read_def path_exists_def)
next
  case True
  then show ?thesis
    by (simp add: json_to_csv_body_def Let_def export_csv_returns print_def
        split: sum.splits option.splits)
qed

lemma handlers_frame:
  "nodes (snd (try_except r [except_JSONDecodeError, except_Exception])) = nodes (snd r)"
  "no_read (snd (try_except r [except_JSONDecodeError, except_Exception])) = no_read (snd r)"
  "no_write (snd (try_except r [except_JSONDecodeError, except_Exception])) = no_write (snd r)"
  by (auto simp: try_except_def except_JSONDecodeError_def except_Exception_def
      List.map_filter_def print_def split: prod.splits sum.splits exn.splits)

lemma handlers_return:
  "fst (try_except r [except_JSONDecodeError, except_Exception]) = Inr (fst r = Inr True)"
  by (auto simp: try_except_def except_JSONDecodeError_def except_Exception_def
      List.map_filter_def split: prod.splits sum.splits exn.splits)

lemma run_nodes:
  "nodes (snd (json_to_csv L w jp cp enc)) =
     put_file (output_path L jp cp) (csv_written L w jp cp enc) (nodes w)"
  by (simp add: json_to_csv_def handlers_frame body_nodes)

lemma run_perm:
  "no_read (snd (json_to_csv L w jp cp enc)) = no_read w"
  "no_write (snd (json_to_csv L w jp cp enc)) = no_write w"
  by (simp_all add: json_to_csv_def handlers_frame body_perm)

lemma run_returns:
  "fst (json_to_csv L w jp cp enc) = Inr (fst (json_to_csv_body L w jp cp enc) = Inr True)"
  by (simp add: json_to_csv_def handlers_return)

lemma csv_written_cong:
  assumes "nodes w' jp = nodes w jp" "no_read w' = no_read w" "no_write w' = no_write w"
    and "nodes w' (output_path L jp cp) = Some Dir \<longleftrightarrow> nodes w (output_path L jp cp) = Some Dir"
  shows "csv_written L w' jp cp enc = csv_written L w jp cp enc"
proof -
  have r: "open_read w' jp = open_read w jp"
    using assms by (simp add: open_read_def split: option.splits node.splits)
  have "writable w' (output_path L jp cp) = writable w (output_path L jp cp)"
    using assms by (auto simp: writable_def open_write_def split: option.splits node.splits)
  then show ?thesis by (simp add: csv_written_def r split: sum.splits option.splits)
qed


lemma run_frame_error:
  assumes "nodes w jp = Some (File text)" "jp \<notin> no_read w" "json_load L enc text = Inr data"
    and "make_frame L data = Some (Inl e)"
  shows "json_to_csv L w jp cp enc =
     (Inr False,
      prints [MsgReading jp,
              case e of JSONDecodeError d \<Rightarrow> MsgDecodeError d | _ \<Rightarrow> MsgUnexpected e] w)"
  using assms
  by (cases e)
    (simp_all add: json_to_csv_def json_to_csv_body_def try_except_def except_JSONDecodeError_def
      except_Exception_def List.map_filter_def path_exists_def open_read_def print_def prints_def)

lemma run_unsupported:
  assumes "nodes w jp = Some (File text)" "jp \<notin> no_read w" "json_load L enc text = Inr data"
    and "make_frame L data = None"
  shows "json_to_csv L w jp cp enc = (Inr False, prints [MsgReading jp, MsgUnsupported] w)"
  using assms
  by (simp add: json_to_csv_def json_to_csv_body_def try_except_def path_exists_def open_read_def
      print_def prints_def)

lemma run_success:
  assumes "nodes w jp = Some (File text)" "jp \<notin> no_read w" "json_load L enc text = Inr data"
    and "make_frame L data = Some (Inr df)"
    and "writable w (output_path L jp cp)" "to_csv L df enc = (csv, None)"
  shows "json_to_csv L w jp cp enc =
     (Inr True,
      w\<lparr>nodes := (nodes w)(output_path L jp cp \<mapsto> File csv),
        console := console w @ success_lines df jp (output_path L jp cp) csv\<rparr>)"
proof -
  have wr: "writable (print (MsgReading jp) w) (output_path L jp cp)"
    using assms(5) by (simp add: print_def)
  have "json_to_csv_body L w jp cp enc = export_csv L (print (MsgReading jp) w) df jp cp enc"
    using assms(1-4)
    by (simp add: json_to_csv_body_def path_exists_def open_read_def Let_def)
  also note export_csv_success[OF wr assms(6)]
  finally show ?thesis
    by (simp add: json_to_csv_def try_except_def print_def success_lines_def)
qed

section \<open>pandas: the frame and the rows written\<close>

lemma set_first_seen [simp]: "set (first_seen xs) = set xs"
  by (induction xs) auto

lemma distinct_first_seen [simp]: "distinct (first_seen xs)"
  by (induction xs) auto

lemma first_seen_append:
  "first_seen (xs @ ys) = first_seen xs @ filter (\<lambda>y. y \<notin> set xs) (first_seen ys)"
proof (induction xs)
  case Nil
  then show ?case by simp
next
  case (Cons x xs)
  have "filter (\<lambda>y. y \<noteq> x) (filter (\<lambda>y. y \<notin> set xs) (first_seen ys))
      = filter (\<lambda>y. y \<noteq> x \<and> y \<notin> set xs) (first_seen ys)"
    by (simp add: conj_commute)
  then show ?case using Cons by simp
qed

lemma unique_add_eq:
  "unique_add uniques buf = uniques @ filter (\<lambda>y. y \<notin> set uniques) (first_seen buf)"
proof (induction buf arbitrary: uniques)
  case Nil
  then show ?case by simp
next
  case (Cons v buf)
  show ?case
  proof (cases "v \<in> set uniques")
    case True
    have "filter (\<lambda>y. y \<notin> set uniques) (filter (\<lambda>y. y \<noteq> v) (first_seen buf))
        = filter (\<lambda>y. y \<notin> set uniques) (first_seen buf)"
      using True by (auto intro: filter_cong)
    then show ?thesis using True Cons by simp
  next
    case False
    have "filter (\<lambda>y. y \<notin> set uniques) (filter (\<lambda>y. y \<noteq> v) (first_seen buf))
        = filter (\<lambda>y. y \<noteq> v \<and> y \<notin> set uniques) (first_seen buf)"
      by (auto intro: filter_cong)
    then show ?thesis using False Cons by simp
  qed
qed

lemma set_unique_add: "set (unique_add uniques buf) = set uniques \<union> set buf"
  by (auto simp: unique_add_eq)

lemma fast_unique_eq:
  "fast_unique uniques gen = uniques @ filter (\<lambda>y. y \<notin> set uniques) (first_seen (concat gen))"
proof (induction gen arbitrary: uniques)
  case Nil
  then show ?case by simp
next
  case (Cons buf gen)
  have "fast_unique uniques (buf # gen) =
      unique_add uniques buf @
      filter (\<lambda>y. y \<notin> set uniques \<union> set buf) (first_seen (concat gen))"
    by (simp add: Cons set_unique_add)
  also have "filter (\<lambda>y. y \<notin> set uniques \<union> set buf) (first_seen (concat gen))
      = filter (\<lambda>y. y \<notin> set uniques) (filter (\<lambda>y. y \<notin> set buf) (first_seen (concat gen)))"
    by (auto intro: filter_cong)
  finally show ?case
    by (simp add: unique_add_eq first_seen_append)
qed

lemma fast_unique_first_seen:
  "fast_unique_multiple_list_gen gen = first_seen (concat gen)"
  by (simp add: fast_unique_multiple_list_gen_def fast_unique_eq)

lemma first_pos_Cons: "first_pos a (x # xs) = (if x = a then 0 else Suc (first_pos a xs))"
  by (simp add: first_pos_def)

lemma first_seen_order: "sorted_wrt (\<lambda>a b. first_pos a ks < first_pos b ks) (first_seen ks)"
proof (induction ks)
  case Nil
  then show ?case by simp
next
  case (Cons x xs)
  have "sorted_wrt (\<lambda>a b. first_pos a xs < first_pos b xs) (filter (\<lambda>y. y \<noteq> x) (first_seen xs))"
    using Cons by (rule sorted_wrt_filter)
  then have "sorted_wrt (\<lambda>a b. first_pos a (x # xs) < first_pos b (x # xs)) (filter (\<lambda>y. y \<noteq> x) (first_seen xs))"
    by (rule sorted_wrt_mono_rel[rotated]) (auto simp: first_pos_Cons)
  then show ?case by (auto simp: first_pos_Cons)
qed


lemma DataFrame_objects:
  "list_all is_obj xs \<Longrightarrow> pd_DataFrame P xs = Inr (list_of_dicts_frame (map items xs))"
  by (cases xs)
    (simp_all add: pd_DataFrame_def list_of_dicts_frame_def empty_frame_def default_index_def
      fast_unique_multiple_list_gen_def)

lemma from_dict_objects:
  "list_all (\<lambda>(k, v). is_obj v) d \<Longrightarrow> pd_from_dict P d = Inr (dict_of_dicts_frame d)"
  by (cases d)
    (auto simp: pd_from_dict_def dict_of_dicts_frame_def empty_frame_def keys_def
      fast_unique_multiple_list_gen_def)

lemma frame_of_array:
  assumes "list_all is_obj xs"
  defines "cols \<equiv> first_seen (concat (map (\<lambda>x. keys (items x)) xs))"
  defines "df \<equiv> list_of_dicts_frame (map items xs)"
  shows "index df = default_index (length xs)"
    and "columns df = map LStr cols"
    and "cells df = map (\<lambda>x. map (map_of (items x)) cols) xs"
  by (simp_all add: df_def cols_def list_of_dicts_frame_def fast_unique_first_seen Let_def comp_def)

lemma array_rows:
  assumes "list_all is_obj xs"
  shows "\<exists>df cols. make_frame (pandas P) (JArr xs) = Some (Inr df)
      \<and> columns df = map LStr cols
      \<and> length (cells df) = length (index df)
      \<and> (\<forall>r<length (index df).
            cells df ! r = map (map_of (row_dict (JArr xs) (index df ! r))) cols
          \<and> set (keys (row_dict (JArr xs) (index df ! r))) \<subseteq> set cols)"
proof -
  let ?cols = "first_seen (concat (map (\<lambda>x. keys (items x)) xs))"
  let ?df = "list_of_dicts_frame (map items xs)"
  note fr = frame_of_array[OF assms]
  have mk: "make_frame (pandas P) (JArr xs) = Some (Inr ?df)"
    by (simp add: make_frame_def pandas_def DataFrame_objects[OF assms])
  have len: "length (cells ?df) = length (index ?df)"
    by (simp add: fr default_index_def)
  have rows: "cells ?df ! r = map (map_of (row_dict (JArr xs) (index ?df ! r))) ?cols
      \<and> set (keys (row_dict (JArr xs) (index ?df ! r))) \<subseteq> set ?cols"
    if "r < length (index ?df)" for r
  proof -
    have r: "r < length xs" using that by (simp add: fr default_index_def)
    then have "xs ! r \<in> set xs" by simp
    then have "set (keys (items (xs ! r))) \<subseteq> set ?cols" by auto
    then show ?thesis using r by (simp add: fr default_index_def)
  qed
  show ?thesis
    using mk fr(2) len rows by blast
qed

lemma frame_of_object:
  "index (dict_of_dicts_frame d) = map LStr (keys d)"
  "columns (dict_of_dicts_frame d)
     = map LStr (first_seen (concat (map (\<lambda>(idx, s). keys (items s)) d)))"
  "cells (dict_of_dicts_frame d)
     = map (\<lambda>(idx, s). map (map_of (items s))
              (first_seen (concat (map (\<lambda>(idx, s). keys (items s)) d)))) d"
  by (simp_all add: dict_of_dicts_frame_def fast_unique_first_seen Let_def)

lemma object_rows:
  assumes "object_of_objects d"
  shows "\<exists>df cols. make_frame (pandas P) (JObj d) = Some (Inr df)
      \<and> columns df = map LStr cols
      \<and> length (cells df) = length (index df)
      \<and> (\<forall>r<length (index df).
            cells df ! r = map (map_of (row_dict (JObj d) (index df ! r))) cols
          \<and> set (keys (row_dict (JObj d) (index df ! r))) \<subseteq> set cols)"
proof -
  let ?cols = "first_seen (concat (map (\<lambda>(idx, s). keys (items s)) d))"
  let ?df = "dict_of_dicts_frame d"
  have objs: "list_all (\<lambda>(k, v). is_obj v) d" and dist: "distinct (map fst d)"
    using assms by (simp_all add: object_of_objects_def keys_def)
  note fr = frame_of_object [of d]
  have mk: "make_frame (pandas P) (JObj d) = Some (Inr ?df)"
    by (simp add: make_frame_def pandas_def from_dict_objects [OF objs])
  have len: "length (cells ?df) = length (index ?df)"
    by (simp add: fr keys_def)
  have rows: "cells ?df ! r = map (map_of (row_dict (JObj d) (index ?df ! r))) ?cols
      \<and> set (keys (row_dict (JObj d) (index ?df ! r))) \<subseteq> set ?cols"
    if r: "r < length (index ?df)" for r
  proof -
    have rd: "r < length d" using r by (simp add: fr keys_def)
    obtain k s where ks: "d ! r = (k, s)" by (cases "d ! r")
    have mem: "(k, s) \<in> set d" using rd ks by (metis nth_mem)
    have lab: "index ?df ! r = LStr k" using rd ks by (simp add: fr keys_def)
    have look: "map_of d k = Some s" using dist mem by simp
    have rdict: "row_dict (JObj d) (index ?df ! r) = items s" by (simp add: lab look)
    have "cells ?df ! r = map (map_of (items s)) ?cols" using rd ks by (simp add: fr)
    moreover have "set (keys (items s)) \<subseteq> set ?cols" using mem by force
    ultimately show ?thesis by (simp only: rdict)
  qed
  show ?thesis
    using mk fr(2) len rows by blast
qed

lemma valid_rows:
  assumes "valid_document data"
  shows "\<exists>df cols. make_frame (pandas P) data = Some (Inr df)
      \<and> columns df = map LStr cols
      \<and> length (cells df) = length (index df)
      \<and> (\<forall>r<length (index df).
            cells df ! r = map (map_of (row_dict data (index df ! r))) cols
          \<and> set (keys (row_dict data (index df ! r))) \<subseteq> set cols)"
proof (cases data)
  case (JArr xs)
  with assms have "list_all is_obj xs" by simp
  from array_rows[OF this, of P] show ?thesis unfolding JArr .
next
  case (JObj d)
  with assms have "object_of_objects d" by simp
  from object_rows[OF this, of P] show ?thesis unfolding JObj .
qed (use assms in simp_all)

lemma csv_rows_length: "length (cells df) = length (index df) \<Longrightarrow>
   length (csv_rows P df) = Suc (length (index df))"
  by (simp add: csv_rows_def)

lemma csv_rows_nth:
  "length (cells df) = length (index df) \<Longrightarrow> r < length (index df) \<Longrightarrow>
   csv_rows P df ! Suc r = row_fields P df (index df ! r) (cells df ! r)"
  by (simp add: csv_rows_def)

lemma row_fields_lookup:
  assumes "columns df = map LStr cols" "row = map (map_of dct) cols"
  shows "row_fields P df lab row =
     label_text lab # map (\<lambda>j. cell_text P (column_cells df j) (map_of dct (cols ! j))) [0..<length cols]"
  using assms by (simp add: row_fields_def)

lemma cell_text_missing [simp]: "cell_text P col None = []"
  by (simp add: cell_text_def is_na_def)

lemma cell_text_nested:
  "is_obj v \<or> is_arr v \<Longrightarrow> cell_text P col (Some v) = py_repr P v"
  by (cases v) (simp_all add: cell_text_def is_na_def)


lemma csv_rows_leading:
  "length (cells df) = length (index df) \<Longrightarrow>
   map hd (tl (csv_rows P df)) = map label_text (index df)"
proof -
  assume len: "length (cells df) = length (index df)"
  have "map hd (tl (csv_rows P df))
      = map (\<lambda>p. label_text (fst p)) (zip (index df) (cells df))"
    by (simp add: csv_rows_def row_fields_def case_prod_unfold)
  also have "\<dots> = map label_text (map fst (zip (index df) (cells df)))"
    by simp
  also have "\<dots> = map label_text (index df)"
    using len by (simp only: map_fst_zip)
  finally show ?thesis .
qed

lemma to_csv_utf8:
  "to_csv (pandas P) df ''utf-8'' = (csv_text P (csv_rows P df), None)"
  by (simp add: pandas_def pd_to_csv_def)

lemma make_frame_scalar: "is_scalar data \<Longrightarrow> make_frame L data = None"
  by (cases data) (simp_all add: make_frame_def is_scalar_def)

section \<open>Reading back what the writer wrote\<close>

lemma read_quoted_body:
  assumes "rest = [] \<or> hd rest \<noteq> CHR 0x22"
  shows "read_csv_from eol True fld rec
           (concat (map (\<lambda>c. if c = CHR 0x22 then [c, c] else [c]) s) @ CHR 0x22 # rest)
         = read_csv_from eol False (fld @ s) rec rest"
  using assms by (induction s arbitrary: fld) auto

lemma read_plain:
  assumes "\<forall>c\<in>set s. c \<noteq> CHR '','' \<and> c \<noteq> CHR 0x22 \<and> c \<notin> set eol"
  shows "read_csv_from eol False fld rec (s @ rest) = read_csv_from eol False (fld @ s) rec rest"
  using assms
proof (induction s arbitrary: fld)
  case Nil
  then show ?case by simp
next
  case (Cons c s)
  have "take (length eol) (c # s @ rest) \<noteq> eol" if "eol \<noteq> []"
  proof
    assume "take (length eol) (c # s @ rest) = eol"
    then have "hd eol = c" using that by (cases eol) auto
    then have "c \<in> set eol" using that by (cases eol) auto
    then show False using Cons.prems by simp
  qed
  then show ?case using Cons by auto
qed

lemma read_field:
  assumes "rest = [] \<or> hd rest \<noteq> CHR 0x22"
  shows "read_csv_from (linesep P) False [] rec (quote_field P s @ rest)
         = read_csv_from (linesep P) False s rec rest"
proof (cases "list_ex (special_char P) s")
  case True
  then show ?thesis
    using read_quoted_body [OF assms, of "linesep P" "[]" rec s]
    by (simp add: quote_field_def)
next
  case False
  then have "\<forall>c\<in>set s. c \<noteq> CHR '','' \<and> c \<noteq> CHR 0x22 \<and> c \<notin> set (linesep P)"
    by (auto simp: list_ex_iff special_char_def)
  from read_plain [OF this, of "[]" rec rest] False show ?thesis
    by (simp add: quote_field_def)
qed

lemma read_terminator:
  assumes "os_linesep P"
  shows "read_csv_from (linesep P) False fld rec (linesep P @ rest)
         = (rec @ [fld]) # read_csv_from (linesep P) False [] [] rest"
  using assms by (auto simp: os_linesep_def)

lemma linesep_not_quote:
  "os_linesep P \<Longrightarrow> linesep P @ rest = [] \<or> hd (linesep P @ rest) \<noteq> CHR 0x22"
  by (auto simp: os_linesep_def)

lemma read_fields:
  assumes "os_linesep P" "flds \<noteq> []"
  shows "read_csv_from (linesep P) False [] rec
           (join '','' (map (quote_field P) flds) @ linesep P @ rest)
         = (rec @ flds) # read_csv_from (linesep P) False [] [] rest"
  using assms(2)
proof (induction flds arbitrary: rec rule: induct_list012)
  case 1
  then show ?case by simp
next
  case (2 f)
  show ?case
    using read_field [OF linesep_not_quote [OF assms(1)], of P rec f rest]
      read_terminator [OF assms(1)]
    by simp
next
  case (3 f g flds)
  have "read_csv_from (linesep P) False [] rec
          (quote_field P f @ CHR '','' # join '','' (map (quote_field P) (g # flds)) @ linesep P @ rest)
      = read_csv_from (linesep P) False f rec
          (CHR '','' # join '','' (map (quote_field P) (g # flds)) @ linesep P @ rest)"
    by (rule read_field) simp
  also have "\<dots> = read_csv_from (linesep P) False [] (rec @ [f])
          (join '','' (map (quote_field P) (g # flds)) @ linesep P @ rest)"
    by simp
  also have "\<dots> = ((rec @ [f]) @ g # flds) # read_csv_from (linesep P) False [] [] rest"
    using "3.IH"(2) [of "rec @ [f]"] by simp
  finally show ?case by simp
qed

lemma read_line:
  assumes "os_linesep P" "flds \<noteq> []"
  shows "read_csv_from (linesep P) False [] [] (csv_line P flds @ rest)
         = flds # read_csv_from (linesep P) False [] [] rest"
proof (cases "join '','' (map (quote_field P) flds) = []")
  case False
  then show ?thesis
    using read_fields [OF assms, of "[]" rest] by (simp add: csv_line_def)
next
  case True
  have one: "flds = [[]]"
  proof (cases flds)
    case Nil
    then show ?thesis using assms(2) by simp
  next
    case (Cons f fs)
    show ?thesis
    proof (cases fs)
      case Nil
      then have "quote_field P f = []" using True Cons by simp
      then have "f = []" by (auto simp: quote_field_def split: if_splits)
      then show ?thesis using Cons Nil by simp
    next
      case (Cons g zs)
      then show ?thesis using True \<open>flds = f # fs\<close> by simp
    qed
  qed
  show ?thesis
    using True assms(1) read_terminator [OF assms(1), of "[]" "[]" rest]
    by (auto simp: csv_line_def one os_linesep_def)
qed

lemma read_csv_text:
  assumes "os_linesep P" "\<forall>row\<in>set rows. row \<noteq> []"
  shows "read_csv (linesep P) (csv_text P rows) = rows"
  using assms(2)
proof (induction rows)
  case Nil
  then show ?case by (simp add: read_csv_def csv_text_def)
next
  case (Cons row rows)
  then have "read_csv_from (linesep P) False [] [] (csv_line P row @ csv_text P rows)
      = row # read_csv_from (linesep P) False [] [] (csv_text P rows)"
    using read_line [OF assms(1), of row] by simp
  then show ?case using Cons by (simp add: read_csv_def csv_text_def)
qed

lemma csv_rows_nonempty: "\<forall>row\<in>set (csv_rows P df). row \<noteq> []"
  by (auto simp: csv_rows_def row_fields_def set_zip)

lemma read_csv_rows:
  "os_linesep P \<Longrightarrow> read_csv (linesep P) (csv_text P (csv_rows P df)) = csv_rows P df"
  by (rule read_csv_text [OF _ csv_rows_nonempty])


lemma run_pandas:
  assumes "nodes w jp = Some (File text)" "jp \<notin> no_read w"
    and "load P ''utf-8'' text = Inr data"
    and "make_frame (pandas P) data = Some (Inr df)"
    and "writable w (output_path (pandas P) jp cp)"
  shows "fst (json_to_csv (pandas P) w jp cp ''utf-8'') = Inr True"
    and "nodes (snd (json_to_csv (pandas P) w jp cp ''utf-8'')) (output_path (pandas P) jp cp)
           = Some (File (csv_text P (csv_rows P df)))"
proof -
  have ld: "json_load (pandas P) ''utf-8'' text = Inr data"
    using assms(3) by (simp add: pandas_def)
  note run = run_success [OF assms(1,2) ld assms(4,5) to_csv_utf8]
  show "fst (json_to_csv (pandas P) w jp cp ''utf-8'') = Inr True"
    by (simp add: run)
  show "nodes (snd (json_to_csv (pandas P) w jp cp ''utf-8'')) (output_path (pandas P) jp cp)
           = Some (File (csv_text P (csv_rows P df)))"
    by (simp add: run)
qed

section \<open>Evaluating the examples\<close>

lemmas run_defs = json_to_csv_def json_to_csv_body_def try_except_def except_JSONDecodeError_def
  except_Exception_def List.map_filter_def export_csv_def write_csv_def open_write_def open_read_def
  path_exists_def print_def prints_def output_path_def getsize_def make_frame_def head_def Let_def
  pandas_def example_py_def loads_def disk_def example_lib_def example_disk_def example_run_def
  writable_def success_lines_def

lemmas frame_defs = pd_DataFrame_def pd_from_dict_def list_of_dicts_frame_def dict_of_dicts_frame_def
  single_column_frame_def empty_frame_def default_index_def
  fast_unique_multiple_list_gen_def keys_def is_scalar_def

lemmas csv_defs = pd_to_csv_def csv_text_def csv_line_def csv_rows_def row_fields_def column_cells_def
  cell_text_def is_na_def quote_field_def special_char_def str_bool_def str_int_def digit_char_def
  float_column_def upt_rec

lemmas doc_defs = pokemon_array_def pokemon_object_def three_rows_def unsorted_keys_def
  nested_value_def mixed_array_def nested_object_def keyed_rows_def quoted_value_def
  json_string_def json_escape_def

section \<open>The claims on the control flow of \<open>json_to_csv\<close>\<close>

text \<open>
  C7.  When the input path does not exist the call returns \<open>False\<close>, and all it does is
  print the line that says so: the check comes first, so nothing is read or parsed (the
  result does not depend on the library nor on any file), and no file changes.
\<close>

theorem missing_input_fails_before_parse:
  assumes "\<not> path_exists w json_file_path"
  shows "json_to_csv L w json_file_path csv_file_path encoding =
           (Inr False, print (MsgNotExists json_file_path) w)"
  using assms
  by (simp add: json_to_csv_def json_to_csv_body_def try_except_def)

theorem missing_input_fails_before_parse_witness:
  "\<not> path_exists (example_disk pokemon_array) ''missing.json'' \<and>
   json_to_csv (example_lib pokemon_array) (example_disk pokemon_array) ''missing.json'' None ''utf-8''
     = (Inr False, print (MsgNotExists ''missing.json'') (example_disk pokemon_array))"
proof -
  have h: "\<not> path_exists (example_disk pokemon_array) ''missing.json''"
    by (simp add: path_exists_def example_disk_def disk_def)
  show ?thesis
    using h missing_input_fails_before_parse [OF h] by simp
qed



text \<open>
  C10.  \<open>json_to_csv\<close> never lets an exception out: every call returns a boolean.  It
  returns \<open>False\<close> whenever the \<^verbatim>\<open>try\<close> block raises, and on each failure path: the input
  is missing, \<^verbatim>\<open>json.load\<close> fails, the root is neither a dict nor a list, building the
  frame fails, the destination cannot be opened, or \<^verbatim>\<open>to_csv\<close> fails while writing.
\<close>

theorem json_to_csv_never_raises:
  "(\<exists>b. fst (json_to_csv L w jp cp enc) = Inr b)
   \<and> (\<forall>e. fst (json_to_csv_body L w jp cp enc) = Inl e \<longrightarrow>
          fst (json_to_csv L w jp cp enc) = Inr False)
   \<and> (\<not> path_exists w jp \<longrightarrow> fst (json_to_csv L w jp cp enc) = Inr False)
   \<and> (\<forall>text e. open_read w jp = Inr text \<and> json_load L enc text = Inl e \<longrightarrow>
          fst (json_to_csv L w jp cp enc) = Inr False)
   \<and> (\<forall>text data. open_read w jp = Inr text \<and> json_load L enc text = Inr data
          \<and> make_frame L data = None \<longrightarrow>
          fst (json_to_csv L w jp cp enc) = Inr False)
   \<and> (\<forall>text data e. open_read w jp = Inr text \<and> json_load L enc text = Inr data
          \<and> make_frame L data = Some (Inl e) \<longrightarrow>
          fst (json_to_csv L w jp cp enc) = Inr False)
   \<and> (\<forall>text data df e. open_read w jp = Inr text \<and> json_load L enc text = Inr data
          \<and> make_frame L data = Some (Inr df)
          \<and> (\<not> writable w (output_path L jp cp) \<or> snd (to_csv L df enc) = Some e) \<longrightarrow>
          fst (json_to_csv L w jp cp enc) = Inr False)"
proof -
  have missing: "open_read w jp = Inl FileNotFoundError" if "\<not> path_exists w jp"
    using that by (simp add: open_read_def path_exists_def)
  show ?thesis
    by (auto simp: run_returns body_returns missing)
qed

theorem json_to_csv_never_raises_witness:
  "fst (json_to_csv (example_lib mixed_array) (example_disk mixed_array) ''missing.json''
         (Some ''out.csv'') ''utf-8'') = Inr False
   \<and> fst (json_to_csv (example_lib mixed_array) (example_disk mixed_array) ''empty.json''
         (Some ''out.csv'') ''utf-8'') = Inr False
   \<and> fst (example_run (JInt 7)) = Inr False
   \<and> fst (example_run mixed_array) = Inr False
   \<and> fst (json_to_csv (example_lib pokemon_array)
         ((example_disk pokemon_array)\<lparr>no_write := {''out.csv''}\<rparr>) ''in.json''
         (Some ''out.csv'') ''utf-8'') = Inr False"
proof -
  let ?L = "example_lib mixed_array" and ?w = "example_disk mixed_array"
  have 1: "\<not> path_exists ?w ''missing.json''"
    by (simp add: path_exists_def example_disk_def disk_def)
  have 2: "open_read ?w ''empty.json'' = Inr []
      \<and> json_load ?L ''utf-8'' [] = Inl (JSONDecodeError ''Expecting value: line 1 column 1 (char 0)'')"
    by (simp add: run_defs doc_defs)
  have 3: "open_read (example_disk (JInt 7)) ''in.json'' = Inr (canonical_json_text (JInt 7))
      \<and> json_load (example_lib (JInt 7)) ''utf-8'' (canonical_json_text (JInt 7)) = Inr (JInt 7)
      \<and> make_frame (example_lib (JInt 7)) (JInt 7) = None"
    by (simp add: run_defs)
  have 4: "open_read ?w ''in.json'' = Inr (canonical_json_text mixed_array)
      \<and> json_load ?L ''utf-8'' (canonical_json_text mixed_array) = Inr mixed_array
      \<and> make_frame ?L mixed_array = Some (Inl AttributeError)"
    by (simp add: run_defs frame_defs mixed_array_def)
  let ?L5 = "example_lib pokemon_array"
  let ?w5 = "(example_disk pokemon_array)\<lparr>no_write := {''out.csv''}\<rparr>"
  have 5: "open_read ?w5 ''in.json'' = Inr (canonical_json_text pokemon_array)
      \<and> json_load ?L5 ''utf-8'' (canonical_json_text pokemon_array) = Inr pokemon_array
      \<and> make_frame ?L5 pokemon_array
           = Some (Inr (list_of_dicts_frame (map items
               [JObj [(''name'', JStr ''Bulbasaur''), (''type'', JStr ''Grass'')],
                JObj [(''name'', JStr ''Charmander''), (''type'', JStr ''Fire'')]])))
      \<and> \<not> writable ?w5 (output_path ?L5 ''in.json'' (Some ''out.csv''))"
    by (simp add: run_defs pd_DataFrame_def pokemon_array_def)
  have c1: "fst (json_to_csv ?L ?w ''missing.json'' (Some ''out.csv'') ''utf-8'') = Inr False"
    using 1 json_to_csv_never_raises [of ?L ?w "''missing.json''" "Some ''out.csv''" "''utf-8''"]
    by blast
  have c2: "fst (json_to_csv ?L ?w ''empty.json'' (Some ''out.csv'') ''utf-8'') = Inr False"
    using 2 json_to_csv_never_raises [of ?L ?w "''empty.json''" "Some ''out.csv''" "''utf-8''"]
    by blast
  have c3: "fst (example_run (JInt 7)) = Inr False"
    unfolding example_run_def
    using 3 json_to_csv_never_raises [of "example_lib (JInt 7)" "example_disk (JInt 7)"
        "''in.json''" "Some ''out.csv''" "''utf-8''"]
    by blast
  have c4: "fst (example_run mixed_array) = Inr False"
    unfolding example_run_def
    using 4 json_to_csv_never_raises [of ?L ?w "''in.json''" "Some ''out.csv''" "''utf-8''"]
    by blast
  have c5: "fst (json_to_csv ?L5 ?w5 ''in.json'' (Some ''out.csv'') ''utf-8'') = Inr False"
    using 5 json_to_csv_never_raises [of ?L5 ?w5 "''in.json''" "Some ''out.csv''" "''utf-8''"]
    by blast
  show ?thesis
    using c1 c2 c3 c4 c5 by simp
qed

text \<open>
  C9.  Calling \<open>json_to_csv\<close> a second time on the same input, with the same output path,
  leaves the output file as the first call left it.  The input is the same in both
  calls: the output path is not the input path (a first call that overwrites its input
  hands the second call another document).
\<close>

theorem repeated_call_same_output:
  assumes "output_path L json_file_path csv_file_path \<noteq> json_file_path"
  shows "nodes (snd (json_to_csv L (snd (json_to_csv L w json_file_path csv_file_path encoding))
                  json_file_path csv_file_path encoding))
           (output_path L json_file_path csv_file_path)
       = nodes (snd (json_to_csv L w json_file_path csv_file_path encoding))
           (output_path L json_file_path csv_file_path)"
proof -
  let ?out = "output_path L json_file_path csv_file_path"
  let ?w1 = "snd (json_to_csv L w json_file_path csv_file_path encoding)"
  have n1: "nodes ?w1 = put_file ?out (csv_written L w json_file_path csv_file_path encoding) (nodes w)"
    by (rule run_nodes)
  have same: "csv_written L ?w1 json_file_path csv_file_path encoding
      = csv_written L w json_file_path csv_file_path encoding"
  proof (rule csv_written_cong)
    show "nodes ?w1 json_file_path = nodes w json_file_path"
      using assms by (simp add: n1 put_file_def split: option.splits)
    show "no_read ?w1 = no_read w" "no_write ?w1 = no_write w"
      by (rule run_perm)+
    show "nodes ?w1 ?out = Some Dir \<longleftrightarrow> nodes w ?out = Some Dir"
      by (auto simp: n1 put_file_def csv_written_def writable_def open_write_def
          split: option.splits sum.splits node.splits if_splits)
  qed
  show ?thesis
    by (simp add: run_nodes [of L ?w1] same) (simp add: n1 put_file_def split: option.splits)
qed

theorem repeated_call_same_output_witness:
  "output_path (example_lib pokemon_object) ''in.json'' (Some ''out.csv'') \<noteq> ''in.json''
   \<and> nodes (snd (json_to_csv (example_lib pokemon_object) (snd (example_run pokemon_object))
        ''in.json'' (Some ''out.csv'') ''utf-8'')) ''out.csv''
     = nodes (snd (example_run pokemon_object)) ''out.csv''
   \<and> nodes (snd (example_run pokemon_object)) ''out.csv''
     = Some (File '',name\<newline>001,Bulbasaur\<newline>004,Charmander\<newline>'')"
proof -
  have h: "output_path (example_lib pokemon_object) ''in.json'' (Some ''out.csv'') \<noteq> ''in.json''"
    by (simp add: output_path_def)
  have out: "output_path (example_lib pokemon_object) ''in.json'' (Some ''out.csv'') = ''out.csv''"
    by (simp add: output_path_def)
  have first: "nodes (snd (example_run pokemon_object)) ''out.csv''
     = Some (File '',name\<newline>001,Bulbasaur\<newline>004,Charmander\<newline>'')"
    by (simp add: run_defs frame_defs csv_defs doc_defs)
  show ?thesis
    using h first
      repeated_call_same_output [OF h, of "example_disk pokemon_object" "''utf-8''"]
    unfolding out example_run_def by simp
qed

text \<open>
  C8, as amended.  A call that reads and parses its input, builds a frame and writes
  it completely returns the boolean \<open>True\<close>, whatever the number of rows; the number of
  rows only shows in the line of dimensions it prints.  The call leaves the text of
  \<^verbatim>\<open>to_csv\<close> at the output path and changes nothing else.
\<close>

theorem successful_call_returns_true:
  assumes "nodes w json_file_path = Some (File text)"
    and "json_file_path \<notin> no_read w"
    and "json_load L encoding text = Inr data"
    and "make_frame L data = Some (Inr df)"
    and "writable w (output_path L json_file_path csv_file_path)"
    and "to_csv L df encoding = (csv, None)"
  shows "json_to_csv L w json_file_path csv_file_path encoding =
     (Inr True,
      w\<lparr>nodes := (nodes w)(output_path L json_file_path csv_file_path \<mapsto> File csv),
        console := console w @
          [MsgReading json_file_path,
           MsgLoaded,
           MsgDimensions (length (index df)) (length (columns df)),
           MsgColumns (columns df),
           MsgHeadTitle,
           MsgHead (head df),
           MsgSaving (output_path L json_file_path csv_file_path),
           MsgDone,
           MsgCreated (output_path L json_file_path csv_file_path),
           MsgSize (length csv)]\<rparr>)"
  using run_success [OF assms] by (simp add: success_lines_def)

theorem successful_call_returns_true_witness:
  "nodes (example_disk three_rows) ''in.json'' = Some (File (canonical_json_text three_rows))
   \<and> ''in.json'' \<notin> no_read (example_disk three_rows)
   \<and> json_load (example_lib three_rows) ''utf-8'' (canonical_json_text three_rows) = Inr three_rows
   \<and> make_frame (example_lib three_rows) three_rows
       = Some (Inr \<lparr>index = [LInt 0, LInt 1, LInt 2], columns = [LStr ''id''],
                    cells = [[Some (JInt 1)], [Some (JInt 2)], [Some (JInt 3)]]\<rparr>)
   \<and> writable (example_disk three_rows)
        (output_path (example_lib three_rows) ''in.json'' (Some ''out.csv''))
   \<and> to_csv (example_lib three_rows)
        \<lparr>index = [LInt 0, LInt 1, LInt 2], columns = [LStr ''id''],
         cells = [[Some (JInt 1)], [Some (JInt 2)], [Some (JInt 3)]]\<rparr> ''utf-8''
       = ('',id\<newline>0,1\<newline>1,2\<newline>2,3\<newline>'', None)
   \<and> fst (example_run three_rows) = Inr True
   \<and> nodes (snd (example_run three_rows)) ''out.csv''
       = Some (File '',id\<newline>0,1\<newline>1,2\<newline>2,3\<newline>'')
   \<and> MsgDimensions 3 1 \<in> set (console (snd (example_run three_rows)))"
proof -
  let ?df = "\<lparr>index = [LInt 0, LInt 1, LInt 2], columns = [LStr ''id''],
              cells = [[Some (JInt 1)], [Some (JInt 2)], [Some (JInt 3)]]\<rparr>"
  have a1: "nodes (example_disk three_rows) ''in.json'' = Some (File (canonical_json_text three_rows))"
    by (simp add: example_disk_def disk_def)
  have a2: "''in.json'' \<notin> no_read (example_disk three_rows)"
    by (simp add: example_disk_def disk_def)
  have a3: "json_load (example_lib three_rows) ''utf-8'' (canonical_json_text three_rows) = Inr three_rows"
    by (simp add: example_lib_def pandas_def example_py_def loads_def)
  have a4: "make_frame (example_lib three_rows) three_rows = Some (Inr ?df)"
    by (simp add: run_defs frame_defs three_rows_def)
  have a5: "writable (example_disk three_rows)
        (output_path (example_lib three_rows) ''in.json'' (Some ''out.csv''))"
    by (simp add: run_defs)
  have a6: "to_csv (example_lib three_rows) ?df ''utf-8''
       = ('',id\<newline>0,1\<newline>1,2\<newline>2,3\<newline>'', None)"
    by (simp add: example_lib_def pandas_def example_py_def csv_defs)
  show ?thesis
    using a1 a2 a3 a4 a5 a6 successful_call_returns_true [OF a1 a2 a3 a4 a5 a6]
    by (simp add: example_run_def output_path_def)
qed

text \<open>
  C8 as stated fails: the calls on a document of two rows and on one of three rows both
  return \<open>True\<close>; the row counts 2 and 3 are printed, not returned.
\<close>

theorem row_count_not_returned:
  "fst (example_run pokemon_array) = Inr True
   \<and> MsgDimensions 2 2 \<in> set (console (snd (example_run pokemon_array)))
   \<and> fst (example_run three_rows) = Inr True
   \<and> MsgDimensions 3 1 \<in> set (console (snd (example_run three_rows)))"
  by (simp add: run_defs frame_defs csv_defs doc_defs)

section \<open>The claims on the table and the rows written\<close>

text \<open>
  C1.  For an array of objects, \<open>json_to_csv\<close> builds a table with one row per element
  of the array; its columns are the union of the keys of the elements, each once, in
  the order of first appearance across the rows (a column stands before another exactly
  when it is first seen earlier), not in alphabetical order.
\<close>

theorem array_of_objects_table:
  assumes "list_all is_obj xs"
  shows "\<exists>df cols.
           make_frame (pandas P) (JArr xs) = Some (Inr df)
         \<and> length (index df) = length xs
         \<and> length (cells df) = length xs
         \<and> columns df = map LStr cols
         \<and> set cols = (\<Union>x\<in>set xs. set (keys (items x)))
         \<and> distinct cols
         \<and> cols = first_seen (concat (map (\<lambda>x. keys (items x)) xs))
         \<and> sorted_wrt (\<lambda>a b. first_pos a (concat (map (\<lambda>x. keys (items x)) xs))
                              < first_pos b (concat (map (\<lambda>x. keys (items x)) xs))) cols"
proof -
  let ?ks = "concat (map (\<lambda>x. keys (items x)) xs)"
  let ?df = "list_of_dicts_frame (map items xs)"
  note fr = frame_of_array [OF assms]
  have "make_frame (pandas P) (JArr xs) = Some (Inr ?df)"
    by (simp add: make_frame_def pandas_def DataFrame_objects [OF assms])
  moreover have "length (index ?df) = length xs" "length (cells ?df) = length xs"
    by (simp_all add: fr default_index_def)
  moreover have "columns ?df = map LStr (first_seen ?ks)"
    by (rule fr)
  moreover have "set (first_seen ?ks) = (\<Union>x\<in>set xs. set (keys (items x)))"
    by simp
  moreover have "distinct (first_seen ?ks)"
    by simp
  moreover have "sorted_wrt (\<lambda>a b. first_pos a ?ks < first_pos b ?ks) (first_seen ?ks)"
    by (rule first_seen_order)
  ultimately show ?thesis by blast
qed

theorem array_of_objects_table_witness:
  "list_all is_obj [JObj [(''b'', JInt 1), (''a'', JInt 2)], JObj [(''c'', JInt 3), (''a'', JInt 4)]]
   \<and> make_frame (example_lib unsorted_keys) unsorted_keys
       = Some (Inr \<lparr>index = [LInt 0, LInt 1],
                    columns = [LStr ''b'', LStr ''a'', LStr ''c''],
                    cells = [[Some (JInt 1), Some (JInt 2), None],
                             [None, Some (JInt 4), Some (JInt 3)]]\<rparr>)
   \<and> (\<exists>df cols. make_frame (example_lib unsorted_keys) unsorted_keys = Some (Inr df)
         \<and> length (index df) = 2 \<and> columns df = map LStr cols \<and> cols = [''b'', ''a'', ''c''])"
proof -
  let ?xs = "[JObj [(''b'', JInt 1), (''a'', JInt 2)], JObj [(''c'', JInt 3), (''a'', JInt 4)]]"
  have h: "list_all is_obj ?xs" by simp
  have ev: "make_frame (example_lib unsorted_keys) unsorted_keys
       = Some (Inr \<lparr>index = [LInt 0, LInt 1],
                    columns = [LStr ''b'', LStr ''a'', LStr ''c''],
                    cells = [[Some (JInt 1), Some (JInt 2), None],
                             [None, Some (JInt 4), Some (JInt 3)]]\<rparr>)"
    by (simp add: run_defs frame_defs doc_defs)
  from array_of_objects_table [OF h, of "example_py (loads (canonical_json_text unsorted_keys) unsorted_keys)"]
  obtain df cols where
    "make_frame (example_lib unsorted_keys) unsorted_keys = Some (Inr df)"
    "length (index df) = 2" "columns df = map LStr cols"
    "cols = first_seen (concat (map (\<lambda>x. keys (items x)) ?xs))"
    unfolding example_lib_def unsorted_keys_def by auto
  moreover have "first_seen (concat (map (\<lambda>x. keys (items x)) ?xs)) = [''b'', ''a'', ''c'']"
    by (simp add: keys_def)
  ultimately show ?thesis using h ev by auto
qed



text \<open>
  C6, as amended.  For a valid document, \<open>json_to_csv\<close> succeeds, and a value that is
  itself an object or an array is written into its field whole: reading the file
  back gives, in the field of its row and column, the text Python's \<^verbatim>\<open>str\<close> gives for
  the parsed value (\<^verbatim>\<open>{'b': 1, 'c': [False]}\<close>), which is not JSON text.
\<close>

theorem nested_values_written_as_python_text:
  assumes "nodes w json_file_path = Some (File text)"
    and "json_file_path \<notin> no_read w"
    and "load P ''utf-8'' text = Inr data"
    and "valid_document data"
    and "writable w (output_path (pandas P) json_file_path csv_file_path)"
    and "os_linesep P"
  shows "\<exists>df cols csv.
           fst (json_to_csv (pandas P) w json_file_path csv_file_path ''utf-8'') = Inr True
         \<and> nodes (snd (json_to_csv (pandas P) w json_file_path csv_file_path ''utf-8''))
               (output_path (pandas P) json_file_path csv_file_path) = Some (File csv)
         \<and> make_frame (pandas P) data = Some (Inr df)
         \<and> columns df = map LStr cols
         \<and> (\<forall>r j v. r < length (index df) \<and> j < length cols
               \<and> map_of (row_dict data (index df ! r)) (cols ! j) = Some v
               \<and> (is_obj v \<or> is_arr v)
               \<longrightarrow> read_csv (linesep P) csv ! Suc r ! Suc j = py_repr P v)"
proof -
  from valid_rows [OF assms(4), of P] obtain df cols where
    mk: "make_frame (pandas P) data = Some (Inr df)" and
    cols: "columns df = map LStr cols" and
    len: "length (cells df) = length (index df)" and
    rows: "\<And>r. r < length (index df) \<Longrightarrow>
            cells df ! r = map (map_of (row_dict data (index df ! r))) cols
          \<and> set (keys (row_dict data (index df ! r))) \<subseteq> set cols"
    by blast
  let ?csv = "csv_text P (csv_rows P df)"
  note run = run_pandas [OF assms(1,2,3) mk assms(5)]
  have rd: "read_csv (linesep P) ?csv = csv_rows P df"
    using assms(6) by (rule read_csv_rows)
  have field: "read_csv (linesep P) ?csv ! Suc r ! Suc j = py_repr P v"
    if r: "r < length (index df)" and j: "j < length cols"
      and v: "map_of (row_dict data (index df ! r)) (cols ! j) = Some v"
      and nested: "is_obj v \<or> is_arr v" for r j v
  proof -
    have "csv_rows P df ! Suc r = row_fields P df (index df ! r) (cells df ! r)"
      using len r by (rule csv_rows_nth)
    also have "\<dots> = label_text (index df ! r) #
        map (\<lambda>j. cell_text P (column_cells df j) (map_of (row_dict data (index df ! r)) (cols ! j)))
            [0..<length cols]"
      using cols rows [OF r] by (simp add: row_fields_lookup)
    finally have "csv_rows P df ! Suc r ! Suc j = cell_text P (column_cells df j) (Some v)"
      using j v by simp
    then show ?thesis using nested by (simp add: rd cell_text_nested)
  qed
  show ?thesis
    using run mk cols field by blast
qed

theorem nested_values_written_as_python_text_witness:
  "nodes (example_disk nested_object) ''in.json'' = Some (File (canonical_json_text nested_object))
   \<and> ''in.json'' \<notin> no_read (example_disk nested_object)
   \<and> load (example_py (loads (canonical_json_text nested_object) nested_object)) ''utf-8''
        (canonical_json_text nested_object) = Inr nested_object
   \<and> valid_document nested_object
   \<and> writable (example_disk nested_object)
        (output_path (example_lib nested_object) ''in.json'' (Some ''out.csv''))
   \<and> os_linesep (example_py (loads (canonical_json_text nested_object) nested_object))
   \<and> fst (example_run nested_object) = Inr True
   \<and> nodes (snd (example_run nested_object)) ''out.csv''
       = Some (File ('',a\<newline>0,'' @ [CHR 0x22, CHR ''{'', CHR 0x27] @ ''b'' @ [CHR 0x27]
                      @ '': 1, '' @ [CHR 0x27] @ ''c'' @ [CHR 0x27] @ '': [False]}''
                      @ [CHR 0x22] @ ''\<newline>''))
   \<and> (\<exists>csv. nodes (snd (example_run nested_object)) ''out.csv'' = Some (File csv)
        \<and> read_csv [CHR 0x0A] csv ! 1 ! 1
            = [CHR ''{'', CHR 0x27] @ ''b'' @ [CHR 0x27] @ '': 1, '' @ [CHR 0x27] @ ''c''
              @ [CHR 0x27] @ '': [False]}'')"
proof -
  let ?P = "example_py (loads (canonical_json_text nested_object) nested_object)"
  let ?w = "example_disk nested_object"
  let ?v = "JObj [(''b'', JInt 1), (''c'', JArr [JBool False])]"
  let ?df = "\<lparr>index = [LInt 0], columns = [LStr ''a''], cells = [[Some ?v]]\<rparr>"
  have a1: "nodes ?w ''in.json'' = Some (File (canonical_json_text nested_object))"
    by (simp add: example_disk_def disk_def)
  have a2: "''in.json'' \<notin> no_read ?w"
    by (simp add: example_disk_def disk_def)
  have a3: "load ?P ''utf-8'' (canonical_json_text nested_object) = Inr nested_object"
    by (simp add: example_py_def loads_def)
  have a4: "valid_document nested_object"
    by (simp add: nested_object_def)
  have a5: "writable ?w (output_path (pandas ?P) ''in.json'' (Some ''out.csv''))"
    by (simp add: run_defs)
  have a6: "os_linesep ?P"
    by (simp add: os_linesep_def example_py_def)
  have ls: "linesep ?P = [CHR 0x0A]"
    by (simp add: example_py_def)
  have out: "output_path (pandas ?P) ''in.json'' (Some ''out.csv'') = ''out.csv''"
    by (simp add: output_path_def)
  from nested_values_written_as_python_text [OF a1 a2 a3 a4 a5 a6]
  obtain df cols csv where
    ok: "fst (json_to_csv (pandas ?P) ?w ''in.json'' (Some ''out.csv'') ''utf-8'') = Inr True" and
    wr: "nodes (snd (json_to_csv (pandas ?P) ?w ''in.json'' (Some ''out.csv'') ''utf-8''))
             ''out.csv'' = Some (File csv)" and
    mk: "make_frame (pandas ?P) nested_object = Some (Inr df)" and
    cols: "columns df = map LStr cols" and
    field: "\<And>r j v. r < length (index df) \<and> j < length cols
               \<and> map_of (row_dict nested_object (index df ! r)) (cols ! j) = Some v
               \<and> (is_obj v \<or> is_arr v)
               \<Longrightarrow> read_csv [CHR 0x0A] csv ! Suc r ! Suc j = py_repr ?P v"
    unfolding out ls by blast
  have ev: "make_frame (pandas ?P) nested_object = Some (Inr ?df)"
    by (simp add: run_defs frame_defs doc_defs)
  have df: "df = ?df" using mk ev by simp
  have c: "cols = [''a'']" using cols unfolding df by (cases cols) auto
  have "read_csv [CHR 0x0A] csv ! Suc 0 ! Suc 0 = py_repr ?P ?v"
    by (rule field) (simp add: df c nested_object_def)
  then have whole: "read_csv [CHR 0x0A] csv ! 1 ! 1
            = [CHR ''{'', CHR 0x27] @ ''b'' @ [CHR 0x27] @ '': 1, '' @ [CHR 0x27] @ ''c''
              @ [CHR 0x27] @ '': [False]}''"
    by (simp add: example_py_def str_bool_def str_int_def digit_char_def)
  have written: "nodes (snd (example_run nested_object)) ''out.csv''
       = Some (File ('',a\<newline>0,'' @ [CHR 0x22, CHR ''{'', CHR 0x27] @ ''b'' @ [CHR 0x27]
                      @ '': 1, '' @ [CHR 0x27] @ ''c'' @ [CHR 0x27] @ '': [False]}''
                      @ [CHR 0x22] @ ''\<newline>''))"
    by (simp add: run_defs frame_defs csv_defs doc_defs)
  show ?thesis
    using a1 a2 a3 a4 a5 a6 ok wr whole written
    by (simp add: example_run_def example_lib_def)
qed

text \<open>
  C6 as stated fails: the array \<^verbatim>\<open>[true]\<close> under the key \<^verbatim>\<open>a\<close> is written as \<^verbatim>\<open>[True]\<close>,
  while its canonical JSON text is \<^verbatim>\<open>[true]\<close>.
\<close>

theorem nested_value_not_json_text:
  "fst (example_run nested_value) = Inr True
   \<and> nodes (snd (example_run nested_value)) ''out.csv'' = Some (File '',a\<newline>0,[True]\<newline>'')
   \<and> canonical_json_text (JArr [JBool True]) = ''[true]''"
  by (simp add: run_defs frame_defs csv_defs doc_defs)

text \<open>
  C2, as amended.  For an object of objects, \<open>json_to_csv\<close> succeeds and the file it
  writes reads back as a header and one record per outer key, in the order of the
  keys; the leading field of every record is its outer key, and the header's leading
  field, which stands over the keys, is empty (the index has no name), followed by
  the column names.
\<close>

theorem object_rows_carry_outer_keys:
  assumes "nodes w json_file_path = Some (File text)"
    and "json_file_path \<notin> no_read w"
    and "load P ''utf-8'' text = Inr (JObj d)"
    and "object_of_objects d"
    and "writable w (output_path (pandas P) json_file_path csv_file_path)"
    and "os_linesep P"
  shows "\<exists>csv rows.
           fst (json_to_csv (pandas P) w json_file_path csv_file_path ''utf-8'') = Inr True
         \<and> nodes (snd (json_to_csv (pandas P) w json_file_path csv_file_path ''utf-8''))
               (output_path (pandas P) json_file_path csv_file_path) = Some (File csv)
         \<and> read_csv (linesep P) csv = rows
         \<and> length rows = Suc (length d)
         \<and> hd rows = [] # first_seen (concat (map (\<lambda>(k, v). keys (items v)) d))
         \<and> map hd (tl rows) = keys d"
proof -
  let ?df = "dict_of_dicts_frame d"
  let ?csv = "csv_text P (csv_rows P ?df)"
  have objs: "list_all (\<lambda>(k, v). is_obj v) d"
    using assms(4) by (simp add: object_of_objects_def)
  have mk: "make_frame (pandas P) (JObj d) = Some (Inr ?df)"
    by (simp add: make_frame_def pandas_def from_dict_objects [OF objs])
  have len: "length (cells ?df) = length (index ?df)"
    by (simp add: frame_of_object keys_def)
  note run = run_pandas [OF assms(1,2,3) mk assms(5)]
  have rd: "read_csv (linesep P) ?csv = csv_rows P ?df"
    using assms(6) by (rule read_csv_rows)
  have n: "length (csv_rows P ?df) = Suc (length d)"
    using csv_rows_length [OF len, of P] by (simp add: frame_of_object keys_def)
  have hdr: "hd (csv_rows P ?df) = [] # first_seen (concat (map (\<lambda>(k, v). keys (items v)) d))"
    by (simp add: csv_rows_def frame_of_object comp_def)
  have lead: "map hd (tl (csv_rows P ?df)) = keys d"
    using csv_rows_leading [OF len, of P] by (simp add: frame_of_object comp_def)
  show ?thesis
    using run rd n hdr lead by (metis (no_types, lifting))
qed

theorem object_rows_carry_outer_keys_witness:
  "nodes (example_disk keyed_rows) ''in.json'' = Some (File (canonical_json_text keyed_rows))
   \<and> ''in.json'' \<notin> no_read (example_disk keyed_rows)
   \<and> load (example_py (loads (canonical_json_text keyed_rows) keyed_rows)) ''utf-8''
        (canonical_json_text keyed_rows)
       = Inr (JObj [(''a,b'', JObj [(''x'', JStr ''y'')]), (''c'', JObj [])])
   \<and> object_of_objects [(''a,b'', JObj [(''x'', JStr ''y'')]), (''c'', JObj [])]
   \<and> writable (example_disk keyed_rows)
        (output_path (example_lib keyed_rows) ''in.json'' (Some ''out.csv''))
   \<and> os_linesep (example_py (loads (canonical_json_text keyed_rows) keyed_rows))
   \<and> fst (example_run keyed_rows) = Inr True
   \<and> nodes (snd (example_run keyed_rows)) ''out.csv''
       = Some (File ('',x\<newline>'' @ [CHR 0x22] @ ''a,b'' @ [CHR 0x22] @ '',y\<newline>c,\<newline>''))
   \<and> (\<exists>csv. nodes (snd (example_run keyed_rows)) ''out.csv'' = Some (File csv)
        \<and> read_csv [CHR 0x0A] csv = [['''', ''x''], [''a,b'', ''y''], [''c'', '''']])"
proof -
  let ?P = "example_py (loads (canonical_json_text keyed_rows) keyed_rows)"
  let ?w = "example_disk keyed_rows"
  let ?d = "[(''a,b'', JObj [(''x'', JStr ''y'')]), (''c'', JObj [])]"
  have a1: "nodes ?w ''in.json'' = Some (File (canonical_json_text keyed_rows))"
    by (simp add: example_disk_def disk_def)
  have a2: "''in.json'' \<notin> no_read ?w"
    by (simp add: example_disk_def disk_def)
  have a3: "load ?P ''utf-8'' (canonical_json_text keyed_rows) = Inr (JObj ?d)"
    by (simp add: example_py_def loads_def keyed_rows_def)
  have a4: "object_of_objects ?d"
    by (simp add: object_of_objects_def keys_def)
  have a5: "writable ?w (output_path (pandas ?P) ''in.json'' (Some ''out.csv''))"
    by (simp add: run_defs)
  have a6: "os_linesep ?P"
    by (simp add: os_linesep_def example_py_def)
  have ls: "linesep ?P = [CHR 0x0A]"
    by (simp add: example_py_def)
  have out: "output_path (pandas ?P) ''in.json'' (Some ''out.csv'') = ''out.csv''"
    by (simp add: output_path_def)
  from object_rows_carry_outer_keys [OF a1 a2 a3 a4 a5 a6]
  obtain csv rows where
    ok: "fst (json_to_csv (pandas ?P) ?w ''in.json'' (Some ''out.csv'') ''utf-8'') = Inr True" and
    wr: "nodes (snd (json_to_csv (pandas ?P) ?w ''in.json'' (Some ''out.csv'') ''utf-8''))
             ''out.csv'' = Some (File csv)" and
    lead: "map hd (tl (read_csv [CHR 0x0A] csv)) = keys ?d"
    unfolding out ls by blast
  have written: "nodes (snd (example_run keyed_rows)) ''out.csv''
       = Some (File ('',x\<newline>'' @ [CHR 0x22] @ ''a,b'' @ [CHR 0x22] @ '',y\<newline>c,\<newline>''))"
    by (simp add: run_defs frame_defs csv_defs doc_defs)
  have rows: "read_csv [CHR 0x0A] ('',x\<newline>'' @ [CHR 0x22] @ ''a,b'' @ [CHR 0x22] @ '',y\<newline>c,\<newline>'')
       = [['''', ''x''], [''a,b'', ''y''], [''c'', '''']]"
    by (simp add: read_csv_def)
  show ?thesis
    using a1 a2 a3 a4 a5 a6 ok written rows
    by (simp add: example_run_def example_lib_def)
qed

text \<open>
  C2 as stated fails on the specification's own example: the header written for
  \<^verbatim>\<open>{"001":{"name":"Bulbasaur"},"004":{"name":"Charmander"}}\<close> is \<^verbatim>\<open>,name\<close>, not
  \<^verbatim>\<open>index,name\<close>.
\<close>

theorem header_has_no_index_name:
  "fst (example_run pokemon_object) = Inr True
   \<and> nodes (snd (example_run pokemon_object)) ''out.csv''
       = Some (File '',name\<newline>001,Bulbasaur\<newline>004,Charmander\<newline>'')
   \<and> nodes (snd (example_run pokemon_object)) ''out.csv''
       \<noteq> Some (File ''index,name\<newline>001,Bulbasaur\<newline>004,Charmander\<newline>'')"
  by (simp add: run_defs frame_defs csv_defs doc_defs)

text \<open>
  C3, as amended.  \<open>json_to_csv\<close> returns \<open>False\<close> and writes no output when the root is
  neither an array nor an object (it prints that the format is not supported), and
  when the root is an array that starts with an object and holds an element that is
  not one (pandas raises \<^verbatim>\<open>AttributeError\<close>, which the function catches).  The function
  itself does not look at the elements of an array.
\<close>

theorem unsupported_root_fails_without_output:
  assumes "nodes w json_file_path = Some (File text)"
    and "json_file_path \<notin> no_read w"
    and "load P encoding text = Inr data"
    and "is_scalar data \<or> (\<exists>x xs. data = JArr (x # xs) \<and> is_obj x \<and> \<not> list_all is_obj xs)"
  shows "json_to_csv (pandas P) w json_file_path csv_file_path encoding =
           (Inr False,
            prints [MsgReading json_file_path,
                    if is_scalar data then MsgUnsupported else MsgUnexpected AttributeError] w)
       \<and> nodes (snd (json_to_csv (pandas P) w json_file_path csv_file_path encoding)) = nodes w"
proof (cases "is_scalar data")
  case True
  have ld: "json_load (pandas P) encoding text = Inr data"
    using assms(3) by (simp add: pandas_def)
  from run_unsupported [OF assms(1,2) ld make_frame_scalar [OF True]] True
  show ?thesis by (simp add: prints_def)
next
  case False
  with assms(4) obtain x xs where data: "data = JArr (x # xs)" "is_obj x" "\<not> list_all is_obj xs"
    by blast
  have ld: "json_load (pandas P) encoding text = Inr data"
    using assms(3) by (simp add: pandas_def)
  have mk: "make_frame (pandas P) data = Some (Inl AttributeError)"
    using data by (simp add: make_frame_def pandas_def pd_DataFrame_def)
  from run_frame_error [OF assms(1,2) ld mk] False
  show ?thesis by (simp add: prints_def)
qed

theorem unsupported_root_fails_without_output_witness:
  "nodes (example_disk (JInt 7)) ''in.json'' = Some (File ''7'')
   \<and> ''in.json'' \<notin> no_read (example_disk (JInt 7))
   \<and> load (example_py (loads ''7'' (JInt 7))) ''utf-8'' ''7'' = Inr (JInt 7)
   \<and> is_scalar (JInt 7)
   \<and> example_run (JInt 7)
       = (Inr False, prints [MsgReading ''in.json'', MsgUnsupported] (example_disk (JInt 7)))
   \<and> nodes (example_disk mixed_array) ''in.json'' = Some (File (canonical_json_text mixed_array))
   \<and> ''in.json'' \<notin> no_read (example_disk mixed_array)
   \<and> load (example_py (loads (canonical_json_text mixed_array) mixed_array)) ''utf-8''
        (canonical_json_text mixed_array) = Inr (JArr [JObj [(''a'', JInt 1)], JInt 2])
   \<and> is_obj (JObj [(''a'', JInt 1)]) \<and> \<not> list_all is_obj [JInt 2]
   \<and> example_run mixed_array
       = (Inr False,
          prints [MsgReading ''in.json'', MsgUnexpected AttributeError] (example_disk mixed_array))
   \<and> nodes (snd (example_run mixed_array)) ''out.csv'' = None"
proof -
  have c7: "str_int 7 = ''7''"
    by (simp add: str_int_def digit_char_def)
  have a1: "nodes (example_disk (JInt 7)) ''in.json'' = Some (File ''7'')"
    by (simp add: example_disk_def disk_def c7)
  have a2: "''in.json'' \<notin> no_read (example_disk (JInt 7))"
    by (simp add: example_disk_def disk_def)
  have a3: "load (example_py (loads ''7'' (JInt 7))) ''utf-8'' ''7'' = Inr (JInt 7)"
    by (simp add: example_py_def loads_def)
  have a4: "is_scalar (JInt 7) \<or> (\<exists>x xs. JInt 7 = JArr (x # xs) \<and> is_obj x \<and> \<not> list_all is_obj xs)"
    by (simp add: is_scalar_def)
  have b1: "nodes (example_disk mixed_array) ''in.json'' = Some (File (canonical_json_text mixed_array))"
    by (simp add: example_disk_def disk_def)
  have b2: "''in.json'' \<notin> no_read (example_disk mixed_array)"
    by (simp add: example_disk_def disk_def)
  have b3: "load (example_py (loads (canonical_json_text mixed_array) mixed_array)) ''utf-8''
        (canonical_json_text mixed_array) = Inr (JArr [JObj [(''a'', JInt 1)], JInt 2])"
    by (simp add: example_py_def loads_def mixed_array_def)
  have b4: "is_scalar (JArr [JObj [(''a'', JInt 1)], JInt 2])
      \<or> (\<exists>x xs. JArr [JObj [(''a'', JInt 1)], JInt 2] = JArr (x # xs) \<and> is_obj x \<and> \<not> list_all is_obj xs)"
    by simp
  have b5: "nodes (example_disk mixed_array) ''out.csv'' = None"
    by (simp add: example_disk_def disk_def)
  show ?thesis
    using a1 a2 a3 b1 b2 b3 b5
      unsupported_root_fails_without_output [OF a1 a2 a3 a4, of "Some ''out.csv''"]
      unsupported_root_fails_without_output [OF b1 b2 b3 b4, of "Some ''out.csv''"]
    by (simp add: example_run_def example_lib_def is_scalar_def c7 prints_def)
qed

text \<open>
  C3 as stated fails: the array \<^verbatim>\<open>[1]\<close>, whose element is not an object, is converted;
  the call returns \<open>True\<close> and writes a table of one column named \<^verbatim>\<open>0\<close>.
\<close>

theorem array_of_scalars_is_converted:
  "fst (example_run (JArr [JInt 1])) = Inr True
   \<and> nodes (snd (example_run (JArr [JInt 1]))) ''out.csv'' = Some (File '',0\<newline>0,1\<newline>'')"
  by (simp add: run_defs frame_defs csv_defs)

end
